theory Spec2Isabelle
  imports Complex_Main
begin

section \<open>The spread-trading bot: data model\<close>

text \<open>
  The development embeds \<^verbatim>\<open>src/bot/src/index.ts\<close> (the trading bot) and the spread
  monitor at the end of \<^verbatim>\<open>src/unnamed/part_003\<close>: the retry loop, the reconciliation of
  the position, the liquidity check, the placing of orders, the opening and closing of the
  position and the trading cycle. Start-up and shutdown are not embedded.

  Conventions of the embedding.
  \<^item> A JavaScript \<^verbatim>\<open>number\<close> that holds a price, a size or a quantity is a \<^typ>\<open>real\<close>:
    arithmetic is exact, the rounding of IEEE doubles is not modelled. Where the source can
    produce \<^verbatim>\<open>Infinity\<close> or \<^verbatim>\<open>NaN\<close> (a division by zero, the constant
    \<^verbatim>\<open>Infinity\<close>) the value is a \<open>jsnum\<close>, which has both.
  \<^item> A thrown \<^verbatim>\<open>Error\<close> is a value: a function that can throw returns
    \<open>error + 'a\<close>, with \<open>Inl\<close> for the exception.
  \<^item> The module's globals (\<^verbatim>\<open>currentPosition\<close>, \<^verbatim>\<open>cycleCount\<close>,
    \<^verbatim>\<open>isCycleRunning\<close>) are the fields of the record \<open>bot\<close>, passed in and returned.
  \<^item> What the program does to the outside is recorded, in program order, as a list of
    \<open>event\<close>s: every \<^verbatim>\<open>sleep\<close>, every call of \<^verbatim>\<open>driftClient.placePerpOrder\<close> and
    its confirmation, every assignment to \<^verbatim>\<open>currentPosition\<close>, and every log line of level
    \<^verbatim>\<open>warn\<close> or \<^verbatim>\<open>error\<close>. Lines of level \<^verbatim>\<open>info\<close> and \<^verbatim>\<open>debug\<close> are left
    out, and so are the three reporting functions \<^verbatim>\<open>logActualPositions\<close>,
    \<^verbatim>\<open>logAccountState\<close> and \<^verbatim>\<open>logFundingCosts\<close>, which read, log, catch their own
    exceptions and assign nothing.
  \<^item> The venue, the order-book service and the candle service are parameters (the record
    \<open>env\<close>): a request that the source retries is a function of the attempt number.
  \<^item> \<^verbatim>\<open>Promise.all\<close> over the two legs of a position is modelled as the DRIFT leg run to
    its end followed by the KMNO leg run to its end; the join fails when one of them fails.
    The interleaving of the two legs in time is not modelled: in the source the join rejects
    as soon as one leg rejects, and the remaining attempts of the other leg then run in the
    background; in the model the events of both legs precede what follows the join.
\<close>

subsection \<open>Trading parameters\<close>

definition DRIFT_QUANTITY :: real where "DRIFT_QUANTITY = 10"
definition KMNO_QUANTITY :: real where "KMNO_QUANTITY = 100"
definition PRICE_RATIO :: real where "PRICE_RATIO = 10"
definition SIGNAL_LAG_PERIODS :: nat where "SIGNAL_LAG_PERIODS = 2"
definition SIMULATION_MODE :: bool where "SIMULATION_MODE = False"
definition MAX_SLIPPAGE_BPS :: real where "MAX_SLIPPAGE_BPS = 25"
definition MAX_RETRIES :: nat where "MAX_RETRIES = 3"
definition RETRY_DELAY_MS :: nat where "RETRY_DELAY_MS = 1000"

subsection \<open>Core types\<close>

text \<open>\<^verbatim>\<open>type Signal = -1 | 0 | 1\<close>: a number, used in arithmetic by \<^verbatim>\<open>openPosition\<close>.\<close>

type_synonym Signal = int

record Position =
  drift :: real
  kmno :: real
  signal :: Signal

record CandleData =
  oracleClose :: real

datatype error = Error string

datatype PositionDirection = LONG | SHORT

datatype side = bids | asks

datatype jsnum = Fin real | Infinity | NaN

text \<open>The arguments of one \<^verbatim>\<open>driftClient.placePerpOrder\<close> call, as \<^verbatim>\<open>placeOrder\<close>
  builds them; \<open>quantity\<close> is the number before its conversion to base units.\<close>

record order_params =
  orderMarketIndex :: nat
  direction :: PositionDirection
  quantity :: real
  reduceOnly :: bool

datatype log_line =
    RetryWarn nat nat nat error
  | ReconcileError error
  | LiquidityInsufficient string side real real
  | LiquidityCheckFailed string side error
  | OrderFailed string PositionDirection real bool error
  | InsufficientDriftLiquidity
  | InsufficientKmnoLiquidity
  | OpenFailed error
  | CloseFailed error
  | CycleSkipped nat
  | InsufficientData nat nat
  | CycleFailed nat error

datatype event =
    Slept nat
  | Submitted order_params
  | Confirmed order_params string
  | Assigned "Position option"
  | Warned log_line
  | Errored log_line

type_synonym 'a outcome = "(error + 'a) \<times> event list"

section \<open>Signal computation\<close>

text \<open>\<^verbatim>\<open>executeTradingCycle\<close>, the two lines
  \<^verbatim>\<open>const spread = driftPrice - PRICE_RATIO * kmnoPrice;\<close>
  \<^verbatim>\<open>const signal: Signal = spread < 0 ? 1 : spread > 0 ? -1 : 0;\<close>\<close>

definition spread_of :: "real \<Rightarrow> real \<Rightarrow> real" where
  "spread_of driftPrice kmnoPrice = driftPrice - PRICE_RATIO * kmnoPrice"

definition signal_of :: "real \<Rightarrow> Signal" where
  "signal_of spread = (if spread < 0 then 1 else if spread > 0 then - 1 else 0)"

text \<open>The spread monitor (\<^verbatim>\<open>setInterval\<close> callback at the end of part 003):
  \<^verbatim>\<open>const spread = drift - 10 * kmno;\<close>
  \<^verbatim>\<open>const signal = spread < 0 ? 1 : spread === 0 ? 0 : -1;\<close>\<close>

definition monitor_spread :: "real \<Rightarrow> real \<Rightarrow> real" where
  "monitor_spread drift_price kmno_price = drift_price - 10 * kmno_price"

definition monitor_signal :: "real \<Rightarrow> Signal" where
  "monitor_signal spread = (if spread < 0 then 1 else if spread = 0 then 0 else - 1)"

section \<open>Retry with exponential backoff\<close>

text \<open>\<^verbatim>\<open>retryWithBackoff(fn, maxRetries)\<close>. The operation \<open>fn\<close> is given by what its
  \<open>k\<close>-th invocation returns or throws, and the events it produces; the loop invokes it
  once per attempt, so the invocation number is the attempt number. \<open>retry_loop\<close> is the
  \<^verbatim>\<open>for\<close> loop entered at \<open>attempt\<close>; the statement after the loop is its last branch.\<close>

function retry_loop :: "(nat \<Rightarrow> 'a outcome) \<Rightarrow> nat \<Rightarrow> nat \<Rightarrow> 'a outcome" where
  "retry_loop fn maxRetries attempt =
     (if attempt \<le> maxRetries then
        (case fn attempt of
           (Inr v, evs) \<Rightarrow> (Inr v, evs)
         | (Inl e, evs) \<Rightarrow>
             if attempt = maxRetries then (Inl e, evs)
             else
               let delay = RETRY_DELAY_MS * 2 ^ (attempt - 1);
                   (r, evs') = retry_loop fn maxRetries (attempt + 1)
               in (r, evs @ [Warned (RetryWarn attempt maxRetries delay e), Slept delay] @ evs'))
      else (Inl (Error ''Retry logic failed unexpectedly''), []))"
  by pat_completeness auto
termination
  by (relation "measure (\<lambda>(fn, maxRetries, attempt). Suc maxRetries - attempt)") auto

definition retryWithBackoff :: "(nat \<Rightarrow> 'a outcome) \<Rightarrow> nat \<Rightarrow> 'a outcome" where
  "retryWithBackoff fn maxRetries = retry_loop fn maxRetries 1"


section \<open>The outside world\<close>

text \<open>A row of \<^verbatim>\<open>PerpMarkets[ENV]\<close>, an entry of \<^verbatim>\<open>perpPositions\<close>, and a level of
  the order book after \<^verbatim>\<open>parseFloat\<close>.\<close>

record market =
  marketIndex :: nat
  baseAssetSymbol :: string

record perp_position =
  posMarketIndex :: nat
  baseAssetAmount :: int

record l2_level =
  price :: real
  size :: real

text \<open>
  \<open>BASE_PRECISION\<close> and \<open>QUOTE_PRECISION\<close> are constants of the venue's SDK; the SDK
  is not part of the repository, so they are parameters. \<open>marketMap\<close> is the
  \<^verbatim>\<open>Map\<close> built at start-up, in insertion order with distinct keys. \<open>perpPositions\<close>
  is what \<^verbatim>\<open>driftClient.getUser().getUserAccount().perpPositions\<close> returns or throws.
  \<open>candles symbol k\<close> is the outcome of the \<open>k\<close>-th request for the candles of
  \<open>symbol\<close> (the \<^verbatim>\<open>records\<close> of the response, or the error thrown), \<open>dlob name\<close>
  the outcome of the order-book request (the levels of each side), and
  \<open>placePerpOrder params k\<close> the outcome of the \<open>k\<close>-th call of
  \<^verbatim>\<open>driftClient.placePerpOrder\<close> with these arguments: the transaction signature, or
  the error thrown. Within one cycle no two \<^verbatim>\<open>placeOrder\<close> calls have the same arguments.
\<close>

record env =
  BASE_PRECISION :: real
  QUOTE_PRECISION :: real
  marketMap :: "(string \<times> market) list"
  perpPositions :: "error + perp_position list"
  candles :: "string \<Rightarrow> nat \<Rightarrow> error + CandleData list"
  dlob :: "string \<Rightarrow> error + (side \<Rightarrow> l2_level list)"
  placePerpOrder :: "order_params \<Rightarrow> nat \<Rightarrow> error + string"

subsection \<open>Global state\<close>

record bot =
  currentPosition :: "Position option"
  cycleCount :: nat
  isCycleRunning :: bool
  trace :: "event list"

definition emit :: "event list \<Rightarrow> bot \<Rightarrow> bot" where
  "emit evs s = s\<lparr>trace := trace s @ evs\<rparr>"

subsection \<open>\<^verbatim>\<open>Promise.all\<close>\<close>

text \<open>Every promise runs to its end; the join fails with the error of the first failed
  promise in array order (in the source: of the one that fails first in time).\<close>

fun promise_all :: "'a outcome list \<Rightarrow> 'a list outcome" where
  "promise_all [] = (Inr [], [])"
| "promise_all ((r, evs) # ps) =
     (case promise_all ps of
        (rs, evs') \<Rightarrow>
          (case r of
             Inl e \<Rightarrow> Inl e
           | Inr v \<Rightarrow> (case rs of Inl e \<Rightarrow> Inl e | Inr vs \<Rightarrow> Inr (v # vs)),
           evs @ evs'))"

definition promise_all2 :: "'a outcome \<Rightarrow> 'b outcome \<Rightarrow> ('a \<times> 'b) outcome" where
  "promise_all2 p q =
     (case p of
        (r, evs) \<Rightarrow>
          (case q of
             (r', evs') \<Rightarrow>
               (case r of
                  Inl e \<Rightarrow> Inl e
                | Inr v \<Rightarrow> (case r' of Inl e \<Rightarrow> Inl e | Inr v' \<Rightarrow> Inr (v, v')),
                evs @ evs')))"

section \<open>Position reconciliation\<close>




section \<open>Candle data\<close>

definition fetchCandleData :: "env \<Rightarrow> string \<Rightarrow> CandleData list outcome" where
  "fetchCandleData env symbol =
     retryWithBackoff (\<lambda>attempt. (candles env symbol attempt, [])) MAX_RETRIES"

section \<open>Liquidity check\<close>

text \<open>Division of two finite numbers, and \<^verbatim>\<open>Math.abs\<close>. The constructor \<open>Infinity\<close>
  stands for an infinity of either sign inside \<^verbatim>\<open>checkLiquidity\<close>; what the function
  returns has passed through \<^verbatim>\<open>Math.abs\<close> or is the literal \<^verbatim>\<open>Infinity\<close>, so there
  it is \<open>+\<infinity>\<close>.\<close>

definition js_div :: "real \<Rightarrow> real \<Rightarrow> jsnum" where
  "js_div a b = (if b = 0 then (if a = 0 then NaN else Infinity) else Fin (a / b))"

definition js_abs :: "jsnum \<Rightarrow> jsnum" where
  "js_abs x = (case x of Fin v \<Rightarrow> Fin \<bar>v\<bar> | Infinity \<Rightarrow> Infinity | NaN \<Rightarrow> NaN)"

text \<open>\<^verbatim>\<open>x > y\<close> for \<open>x\<close> a value returned by \<^verbatim>\<open>checkLiquidity\<close>.\<close>

definition js_gt :: "jsnum \<Rightarrow> real \<Rightarrow> bool" where
  "js_gt x y = (case x of Fin v \<Rightarrow> v > y | Infinity \<Rightarrow> True | NaN \<Rightarrow> False)"

record liquidity =
  canFill :: bool
  estimatedSlippage :: jsnum

definition levelPrice :: "env \<Rightarrow> l2_level \<Rightarrow> real" where
  "levelPrice env order = price order / QUOTE_PRECISION env"

definition levelSize :: "env \<Rightarrow> l2_level \<Rightarrow> real" where
  "levelSize env order = size order / BASE_PRECISION env"

text \<open>The \<^verbatim>\<open>for (const order of orders)\<close> loop on the pair
  \<open>(totalSize, totalValue)\<close>; the \<^verbatim>\<open>break\<close> is the first branch of the conditional.\<close>

fun depth_walk :: "env \<Rightarrow> real \<Rightarrow> l2_level list \<Rightarrow> real \<times> real \<Rightarrow> real \<times> real" where
  "depth_walk env orderSize [] (totalSize, totalValue) = (totalSize, totalValue)"
| "depth_walk env orderSize (order # rest) (totalSize, totalValue) =
     (let fillSize = min (levelSize env order) (orderSize - totalSize);
          totalValue' = totalValue + fillSize * levelPrice env order;
          totalSize' = totalSize + fillSize
      in if totalSize' \<ge> orderSize then (totalSize', totalValue')
         else depth_walk env orderSize rest (totalSize', totalValue'))"

definition bestPrice_of :: "env \<Rightarrow> l2_level list \<Rightarrow> real" where
  "bestPrice_of env orders = (case orders of [] \<Rightarrow> 0 | order # _ \<Rightarrow> price order / QUOTE_PRECISION env)"

text \<open>\<^verbatim>\<open>const avgPrice = totalValue / totalSize\<close> and
  \<^verbatim>\<open>const bestSlippage = Math.abs((avgPrice - bestPrice) / bestPrice)\<close>.\<close>

definition avgPrice_of :: "real \<times> real \<Rightarrow> jsnum" where
  "avgPrice_of totals = (case totals of (totalSize, totalValue) \<Rightarrow> js_div totalValue totalSize)"

definition bestSlippage_of :: "jsnum \<Rightarrow> real \<Rightarrow> jsnum" where
  "bestSlippage_of avgPrice bestPrice =
     (case avgPrice of
        Fin a \<Rightarrow> js_abs (js_div (a - bestPrice) bestPrice)
      | Infinity \<Rightarrow> Infinity
      | NaN \<Rightarrow> NaN)"

text \<open>\<^verbatim>\<open>checkLiquidity\<close>. The slippage against the oracle price is computed by the source
  for an \<^verbatim>\<open>info\<close> line only and is left out.\<close>

definition checkLiquidity :: "env \<Rightarrow> string \<Rightarrow> side \<Rightarrow> real \<Rightarrow> liquidity \<times> event list" where
  "checkLiquidity env marketSymbol sd orderSize =
     (case dlob env marketSymbol of
        Inl e \<Rightarrow>
          (\<lparr>canFill = False, estimatedSlippage = Infinity\<rparr>,
           [Errored (LiquidityCheckFailed marketSymbol sd e)])
      | Inr data \<Rightarrow>
          (let orders = data sd;
               bestPrice = bestPrice_of env orders;
               totals = depth_walk env orderSize orders (0, 0)
           in if fst totals < orderSize then
                (\<lparr>canFill = False, estimatedSlippage = Infinity\<rparr>,
                 [Warned (LiquidityInsufficient marketSymbol sd orderSize (fst totals))])
              else
                (\<lparr>canFill = True,
                  estimatedSlippage = bestSlippage_of (avgPrice_of totals) bestPrice\<rparr>, [])))"

section \<open>Order placement\<close>

definition placeOrder ::
  "env \<Rightarrow> string \<Rightarrow> PositionDirection \<Rightarrow> real \<Rightarrow> bool \<Rightarrow> string option outcome" where
  "placeOrder env mkt dir qty ro =
     (if SIMULATION_MODE then (Inr None, [])
      else
        retryWithBackoff
          (\<lambda>attempt.
             case map_of (marketMap env) mkt of
               None \<Rightarrow>
                 (Inl (Error (''Market config not found for '' @ mkt)),
                  [Errored (OrderFailed mkt dir qty ro (Error (''Market config not found for '' @ mkt)))])
             | Some marketConfig \<Rightarrow>
                 (let params = \<lparr>orderMarketIndex = marketIndex marketConfig, direction = dir,
                                quantity = qty, reduceOnly = ro\<rparr>
                  in case placePerpOrder env params attempt of
                       Inr tx \<Rightarrow> (Inr (Some tx), [Submitted params, Confirmed params tx])
                     | Inl e \<Rightarrow> (Inl e, [Submitted params, Errored (OrderFailed mkt dir qty ro e)])))
          MAX_RETRIES)"

section \<open>Opening and closing the position\<close>

text \<open>The messages of the two slippage errors carry the figures in the source; the model
  keeps their fixed part.\<close>

definition openPosition :: "env \<Rightarrow> Signal \<Rightarrow> bot \<Rightarrow> (error + unit) \<times> bot" where
  "openPosition env sig s =
     (if sig = 0 then (Inr (), s)
      else
        (let driftDirection = (if sig > 0 then LONG else SHORT);
             kmnoDirection = (if sig > 0 then SHORT else LONG);
             driftSide = (if driftDirection = LONG then asks else bids);
             kmnoSide = (if kmnoDirection = LONG then asks else bids);
             driftCheck = checkLiquidity env ''DRIFT-PERP'' driftSide DRIFT_QUANTITY;
             kmnoCheck = checkLiquidity env ''KMNO-PERP'' kmnoSide KMNO_QUANTITY;
             driftLiquidity = fst driftCheck;
             kmnoLiquidity = fst kmnoCheck;
             s1 = emit (snd driftCheck @ snd kmnoCheck
                        @ (if \<not> canFill driftLiquidity then [Warned InsufficientDriftLiquidity] else [])
                        @ (if \<not> canFill kmnoLiquidity then [Warned InsufficientKmnoLiquidity] else [])) s;
             maxSlippageDecimal = MAX_SLIPPAGE_BPS / 10000
         in if js_gt (estimatedSlippage driftLiquidity) maxSlippageDecimal then
              (Inl (Error ''DRIFT slippage too high''),
               emit [Errored (OpenFailed (Error ''DRIFT slippage too high''))] s1)
            else if js_gt (estimatedSlippage kmnoLiquidity) maxSlippageDecimal then
              (Inl (Error ''KMNO slippage too high''),
               emit [Errored (OpenFailed (Error ''KMNO slippage too high''))] s1)
            else
              (case promise_all
                      [placeOrder env ''DRIFT'' driftDirection DRIFT_QUANTITY False,
                       placeOrder env ''KMNO'' kmnoDirection KMNO_QUANTITY False] of
                 (Inl e, evs) \<Rightarrow> (Inl e, emit (evs @ [Errored (OpenFailed e)]) s1)
               | (Inr txs, evs) \<Rightarrow>
                   (let p = \<lparr>drift = real_of_int sig * DRIFT_QUANTITY,
                             kmno = - real_of_int sig * KMNO_QUANTITY,
                             signal = sig\<rparr>
                    in (Inr (), emit [Assigned (Some p)]
                                  ((emit evs s1)\<lparr>currentPosition := Some p\<rparr>))))))"

definition close_orders :: "env \<Rightarrow> Position \<Rightarrow> string option outcome list" where
  "close_orders env p =
     (if drift p \<noteq> 0 then
        [placeOrder env ''DRIFT'' (if drift p > 0 then SHORT else LONG) \<bar>drift p\<bar> True]
      else [])
     @ (if kmno p \<noteq> 0 then
          [placeOrder env ''KMNO'' (if kmno p > 0 then SHORT else LONG) \<bar>kmno p\<bar> True]
        else [])"

definition closePosition :: "env \<Rightarrow> bot \<Rightarrow> (error + unit) \<times> bot" where
  "closePosition env s =
     (case currentPosition s of
        None \<Rightarrow> (Inr (), s)
      | Some p \<Rightarrow>
          (case promise_all (close_orders env p) of
             (Inl e, evs) \<Rightarrow> (Inl e, emit (evs @ [Errored (CloseFailed e)]) s)
           | (Inr txs, evs) \<Rightarrow>
               (Inr (), emit [Assigned None] ((emit evs s)\<lparr>currentPosition := None\<rparr>))))"

section \<open>The trading cycle\<close>

text \<open>The body of the \<^verbatim>\<open>try\<close> block of \<^verbatim>\<open>executeTradingCycle\<close>, in three parts:
  \<open>cycle_signal\<close> is the extraction of the lagged prices and the signal computed from
  them, \<open>trade\<close> is the conditional under the comment \<^verbatim>\<open>// Trading logic\<close>, and
  \<open>cycle_body\<close> is the whole block, from the parallel fetch on. \<open>Inl\<close> is an
  exception that reaches the \<^verbatim>\<open>catch\<close> of the cycle.\<close>

definition cycle_signal :: "CandleData list \<Rightarrow> CandleData list \<Rightarrow> Signal" where
  "cycle_signal driftCandles kmnoCandles =
     (let driftPrice = oracleClose (driftCandles ! SIGNAL_LAG_PERIODS);
          kmnoPrice = oracleClose (kmnoCandles ! SIGNAL_LAG_PERIODS)
      in signal_of (spread_of driftPrice kmnoPrice))"

definition trade :: "env \<Rightarrow> Signal \<Rightarrow> bot \<Rightarrow> (error + unit) \<times> bot" where
  "trade env sig s =
     (case currentPosition s of
        None \<Rightarrow> if sig \<noteq> 0 then openPosition env sig s else (Inr (), s)
      | Some p \<Rightarrow>
          if signal p \<noteq> sig then
            (case closePosition env s of
               (Inl e, s') \<Rightarrow> (Inl e, s')
             | (Inr u, s') \<Rightarrow> if sig \<noteq> 0 then openPosition env sig s' else (Inr (), s'))
          else (Inr (), s))"

definition cycle_body :: "env \<Rightarrow> bot \<Rightarrow> (error + unit) \<times> bot" where
  "cycle_body env s =
     (case promise_all2 (fetchCandleData env ''DRIFT-PERP'') (fetchCandleData env ''KMNO-PERP'') of
        (Inl e, evs) \<Rightarrow> (Inl e, emit evs s)
      | (Inr (driftCandles, kmnoCandles), evs) \<Rightarrow>
          if length driftCandles < SIGNAL_LAG_PERIODS + 1
             \<or> length kmnoCandles < SIGNAL_LAG_PERIODS + 1 then
            (Inr (), emit (evs @ [Warned (InsufficientData (length driftCandles) (length kmnoCandles))]) s)
          else trade env (cycle_signal driftCandles kmnoCandles) (emit evs s))"

text \<open>The end of \<^verbatim>\<open>executeTradingCycle\<close>: its \<^verbatim>\<open>catch\<close> and \<^verbatim>\<open>finally\<close> applied to
  the outcome of the body.\<close>

definition cycle_end :: "(error + unit) \<times> bot \<Rightarrow> bot" where
  "cycle_end outcome =
     (case outcome of
        (Inr u, s') \<Rightarrow> s'\<lparr>isCycleRunning := False\<rparr>
      | (Inl e, s') \<Rightarrow> (emit [Errored (CycleFailed (cycleCount s') e)] s')\<lparr>isCycleRunning := False\<rparr>)"

definition executeTradingCycle :: "env \<Rightarrow> bot \<Rightarrow> bot" where
  "executeTradingCycle env s =
     (if isCycleRunning s then emit [Warned (CycleSkipped (cycleCount s + 1))] s
      else cycle_end (cycle_body env (s\<lparr>isCycleRunning := True, cycleCount := cycleCount s + 1\<rparr>)))"

section \<open>The ledger invariant and scenarios\<close>



text \<open>Inputs for the worked scenarios: two markets, a venue holding the given base amounts
  of DRIFT and KMNO, and a bot that has just started.\<close>

definition scenario_markets :: "(string \<times> market) list" where
  "scenario_markets =
     [(''DRIFT'', \<lparr>marketIndex = 30, baseAssetSymbol = ''DRIFT''\<rparr>),
      (''KMNO'', \<lparr>marketIndex = 28, baseAssetSymbol = ''KMNO''\<rparr>)]"

definition scenario_env ::
  "(error + perp_position list) \<Rightarrow> (string \<Rightarrow> nat \<Rightarrow> error + CandleData list) \<Rightarrow>
   (string \<Rightarrow> error + (side \<Rightarrow> l2_level list)) \<Rightarrow> (order_params \<Rightarrow> nat \<Rightarrow> error + string) \<Rightarrow> env" where
  "scenario_env positions cnd book venue =
     \<lparr>BASE_PRECISION = 1000000000, QUOTE_PRECISION = 1000000, marketMap = scenario_markets,
      perpPositions = positions, candles = cnd, dlob = book, placePerpOrder = venue\<rparr>"


definition deep_book :: "string \<Rightarrow> error + (side \<Rightarrow> l2_level list)" where
  "deep_book name = Inr (\<lambda>sd. [\<lparr>price = 1000000, size = 1000000000000\<rparr>])"

definition steady_candles :: "real \<Rightarrow> real \<Rightarrow> string \<Rightarrow> nat \<Rightarrow> error + CandleData list" where
  "steady_candles driftClose kmnoClose symbol k =
     Inr (if symbol = ''DRIFT-PERP''
          then [\<lparr>oracleClose = driftClose\<rparr>, \<lparr>oracleClose = driftClose\<rparr>, \<lparr>oracleClose = driftClose\<rparr>]
          else [\<lparr>oracleClose = kmnoClose\<rparr>, \<lparr>oracleClose = kmnoClose\<rparr>, \<lparr>oracleClose = kmnoClose\<rparr>])"

definition venue_accepts :: "order_params \<Rightarrow> nat \<Rightarrow> error + string" where
  "venue_accepts params k = Inr ''tx''"

definition venue_rejects_kmno_close :: "order_params \<Rightarrow> nat \<Rightarrow> error + string" where
  "venue_rejects_kmno_close params k =
     (if orderMarketIndex params = 28 \<and> reduceOnly params then Inl (Error ''timeout'') else Inr ''tx'')"

definition venue_rejects_open :: "order_params \<Rightarrow> nat \<Rightarrow> error + string" where
  "venue_rejects_open params k = (if reduceOnly params then Inr ''tx'' else Inl (Error ''timeout''))"

definition long_bot :: bot where
  "long_bot = \<lparr>currentPosition = Some \<lparr>drift = 10, kmno = - 100, signal = 1\<rparr>,
                cycleCount = 1, isCycleRunning = False, trace = []\<rparr>"

definition fresh_bot :: bot where
  "fresh_bot = \<lparr>currentPosition = None, cycleCount = 0, isCycleRunning = False, trace = []\<rparr>"



definition bars :: "real list \<Rightarrow> CandleData list" where
  "bars closes = map (\<lambda>c. \<lparr>oracleClose = c\<rparr>) closes"

text \<open>The size and the notional of a run of levels taken whole, and the book of the worked
  example: a level of size 5 at price 1.00 and a level of size 5 at price 1.01, in the units
  of the order-book service.\<close>

definition book_size :: "env \<Rightarrow> l2_level list \<Rightarrow> real" where
  "book_size env orders = sum_list (map (levelSize env) orders)"

definition book_notional :: "env \<Rightarrow> l2_level list \<Rightarrow> real" where
  "book_notional env orders = sum_list (map (\<lambda>order. levelSize env order * levelPrice env order) orders)"


text \<open>Kinds of event: an order call or confirmation with the given \<open>reduceOnly\<close> flag
  (closing orders are reduce-only, opening orders are not), and an assignment of the
  ledger.\<close>

definition is_order_with :: "bool \<Rightarrow> event \<Rightarrow> bool" where
  "is_order_with ro ev =
     (case ev of Submitted ps \<Rightarrow> reduceOnly ps = ro | Confirmed ps tx \<Rightarrow> reduceOnly ps = ro | _ \<Rightarrow> False)"

definition is_assignment :: "event \<Rightarrow> bool" where
  "is_assignment ev = (case ev of Assigned ledger \<Rightarrow> True | _ \<Rightarrow> False)"

section \<open>Properties: signal computation\<close>

text \<open>
  Claim C5. For all prices, the spread is \<open>priceA - ratio * priceB\<close> (the ratio is the
  constant \<open>PRICE_RATIO\<close>), and the signal is \<open>+1\<close> exactly when the spread is negative,
  \<open>-1\<close> exactly when it is positive and \<open>0\<close> exactly when it is zero. The same holds
  for the spread monitor, whose conditional tests \<open>spread = 0\<close> second. Both are functions
  of their arguments alone.
\<close>

theorem signal_sign:
  "spread_of a b = a - PRICE_RATIO * b \<and>
   (signal_of (spread_of a b) = 1 \<longleftrightarrow> spread_of a b < 0) \<and>
   (signal_of (spread_of a b) = - 1 \<longleftrightarrow> spread_of a b > 0) \<and>
   (signal_of (spread_of a b) = 0 \<longleftrightarrow> spread_of a b = 0) \<and>
   monitor_spread a b = a - 10 * b \<and>
   (monitor_signal (monitor_spread a b) = 1 \<longleftrightarrow> monitor_spread a b < 0) \<and>
   (monitor_signal (monitor_spread a b) = - 1 \<longleftrightarrow> monitor_spread a b > 0) \<and>
   (monitor_signal (monitor_spread a b) = 0 \<longleftrightarrow> monitor_spread a b = 0)"
  by (simp add: spread_of_def signal_of_def monitor_spread_def monitor_signal_def)

section \<open>Properties: retry\<close>

lemma retry_loop_unfold:
  "retry_loop fn maxRetries attempt =
     (if attempt \<le> maxRetries then
        (case fn attempt of
           (Inr v, evs) \<Rightarrow> (Inr v, evs)
         | (Inl e, evs) \<Rightarrow>
             if attempt = maxRetries then (Inl e, evs)
             else
               (fst (retry_loop fn maxRetries (attempt + 1)),
                evs @ [Warned (RetryWarn attempt maxRetries (RETRY_DELAY_MS * 2 ^ (attempt - 1)) e),
                       Slept (RETRY_DELAY_MS * 2 ^ (attempt - 1))]
                    @ snd (retry_loop fn maxRetries (attempt + 1))))
      else (Inl (Error ''Retry logic failed unexpectedly''), []))"
  by (subst retry_loop.simps) (simp add: Let_def split: prod.splits sum.splits)

lemma retry_loop_success:
  "attempt \<le> maxRetries \<Longrightarrow> fn attempt = (Inr v, evs) \<Longrightarrow>
   retry_loop fn maxRetries attempt = (Inr v, evs)"
  by (subst retry_loop_unfold) simp

lemma retry_loop_last_failure:
  "fn maxRetries = (Inl e, evs) \<Longrightarrow> retry_loop fn maxRetries maxRetries = (Inl e, evs)"
  by (subst retry_loop_unfold) simp

lemma retry_loop_failure_step:
  "attempt < maxRetries \<Longrightarrow> fn attempt = (Inl e, evs) \<Longrightarrow>
   retry_loop fn maxRetries attempt =
     (fst (retry_loop fn maxRetries (Suc attempt)),
      evs @ [Warned (RetryWarn attempt maxRetries (RETRY_DELAY_MS * 2 ^ (attempt - 1)) e),
             Slept (RETRY_DELAY_MS * 2 ^ (attempt - 1))]
          @ snd (retry_loop fn maxRetries (Suc attempt)))"
  by (subst retry_loop_unfold) simp

declare retry_loop.simps [simp del]

text \<open>
  Claim C7. A failure on attempt \<open>k\<close> with attempts remaining is followed by a warning
  and a sleep of \<open>RETRY_DELAY_MS * 2 ^ (k - 1)\<close> before attempt \<open>k + 1\<close>. With the
  source's \<open>MAX_RETRIES = 3\<close> and \<open>RETRY_DELAY_MS = 1000\<close>: an operation that fails
  twice and then succeeds sleeps 1000 ms, then 2000 ms, and returns the result of attempt 3;
  an operation that fails three times sleeps the same and throws the error of attempt 3
  unchanged.
\<close>

theorem retry_three:
  "(1 \<le> k \<and> k < maxRetries \<and> fn k = (Inl e, evs) \<longrightarrow>
      retry_loop fn maxRetries k =
        (fst (retry_loop fn maxRetries (Suc k)),
         evs @ [Warned (RetryWarn k maxRetries (RETRY_DELAY_MS * 2 ^ (k - 1)) e),
                Slept (RETRY_DELAY_MS * 2 ^ (k - 1))]
             @ snd (retry_loop fn maxRetries (Suc k))))
   \<and> (fn 1 = (Inl e1, evs1) \<and> fn 2 = (Inl e2, evs2) \<and> fn 3 = (Inr v, evs3) \<longrightarrow>
        MAX_RETRIES = 3 \<and> RETRY_DELAY_MS = 1000 \<and>
        retryWithBackoff fn MAX_RETRIES =
          (Inr v, evs1 @ [Warned (RetryWarn 1 3 1000 e1), Slept 1000]
                @ evs2 @ [Warned (RetryWarn 2 3 2000 e2), Slept 2000] @ evs3))
   \<and> (fn 1 = (Inl e1, evs1) \<and> fn 2 = (Inl e2, evs2) \<and> fn 3 = (Inl e3, evs3) \<longrightarrow>
        retryWithBackoff fn MAX_RETRIES =
          (Inl e3, evs1 @ [Warned (RetryWarn 1 3 1000 e1), Slept 1000]
                @ evs2 @ [Warned (RetryWarn 2 3 2000 e2), Slept 2000] @ evs3))"
proof (intro conjI impI)
  assume "1 \<le> k \<and> k < maxRetries \<and> fn k = (Inl e, evs)"
  then show "retry_loop fn maxRetries k =
        (fst (retry_loop fn maxRetries (Suc k)),
         evs @ [Warned (RetryWarn k maxRetries (RETRY_DELAY_MS * 2 ^ (k - 1)) e),
                Slept (RETRY_DELAY_MS * 2 ^ (k - 1))]
             @ snd (retry_loop fn maxRetries (Suc k)))"
    by (simp add: retry_loop_failure_step)
next
  show "MAX_RETRIES = 3" by (simp add: MAX_RETRIES_def)
  show "RETRY_DELAY_MS = 1000" by (simp add: RETRY_DELAY_MS_def)
next
  assume a: "fn 1 = (Inl e1, evs1) \<and> fn 2 = (Inl e2, evs2) \<and> fn 3 = (Inr v, evs3)"
  have 3: "retry_loop fn 3 3 = (Inr v, evs3)"
    using a by (simp add: retry_loop_success)
  have 2: "retry_loop fn 3 2 = (Inr v, evs2 @ [Warned (RetryWarn 2 3 2000 e2), Slept 2000] @ evs3)"
    using a retry_loop_failure_step [of 2 3 fn e2 evs2] 3
    by (simp add: RETRY_DELAY_MS_def eval_nat_numeral)
  have 1: "retry_loop fn 3 1 = (Inr v, evs1 @ [Warned (RetryWarn 1 3 1000 e1), Slept 1000]
                @ evs2 @ [Warned (RetryWarn 2 3 2000 e2), Slept 2000] @ evs3)"
    using a retry_loop_failure_step [of 1 3 fn e1 evs1] 2
    by (simp add: RETRY_DELAY_MS_def eval_nat_numeral)
  show "retryWithBackoff fn MAX_RETRIES =
          (Inr v, evs1 @ [Warned (RetryWarn 1 3 1000 e1), Slept 1000]
                @ evs2 @ [Warned (RetryWarn 2 3 2000 e2), Slept 2000] @ evs3)"
    using 1 by (simp add: retryWithBackoff_def MAX_RETRIES_def)
next
  assume a: "fn 1 = (Inl e1, evs1) \<and> fn 2 = (Inl e2, evs2) \<and> fn 3 = (Inl e3, evs3)"
  have 3: "retry_loop fn 3 3 = (Inl e3, evs3)"
    using a by (simp add: retry_loop_last_failure)
  have 2: "retry_loop fn 3 2 = (Inl e3, evs2 @ [Warned (RetryWarn 2 3 2000 e2), Slept 2000] @ evs3)"
    using a retry_loop_failure_step [of 2 3 fn e2 evs2] 3
    by (simp add: RETRY_DELAY_MS_def eval_nat_numeral)
  have 1: "retry_loop fn 3 1 = (Inl e3, evs1 @ [Warned (RetryWarn 1 3 1000 e1), Slept 1000]
                @ evs2 @ [Warned (RetryWarn 2 3 2000 e2), Slept 2000] @ evs3)"
    using a retry_loop_failure_step [of 1 3 fn e1 evs1] 2
    by (simp add: RETRY_DELAY_MS_def eval_nat_numeral)
  show "retryWithBackoff fn MAX_RETRIES =
          (Inl e3, evs1 @ [Warned (RetryWarn 1 3 1000 e1), Slept 1000]
                @ evs2 @ [Warned (RetryWarn 2 3 2000 e2), Slept 2000] @ evs3)"
    using 1 by (simp add: retryWithBackoff_def MAX_RETRIES_def)
qed

theorem retry_three_witness:
  "retry_loop (\<lambda>k. if k = 3 then (Inr (7::nat), []) else (Inl (Error ''down''), [])) 3 1 =
     (fst (retry_loop (\<lambda>k. if k = 3 then (Inr (7::nat), []) else (Inl (Error ''down''), [])) 3 (Suc 1)),
      [Warned (RetryWarn 1 3 1000 (Error ''down'')), Slept 1000]
        @ snd (retry_loop (\<lambda>k. if k = 3 then (Inr (7::nat), []) else (Inl (Error ''down''), [])) 3 (Suc 1)))
   \<and> retryWithBackoff (\<lambda>k. if k = 3 then (Inr (7::nat), []) else (Inl (Error ''down''), [])) MAX_RETRIES =
     (Inr 7, [Warned (RetryWarn 1 3 1000 (Error ''down'')), Slept 1000,
              Warned (RetryWarn 2 3 2000 (Error ''down'')), Slept 2000])
   \<and> retryWithBackoff (\<lambda>k. (Inl (Error (if k = 3 then ''third'' else ''down'')), [])) MAX_RETRIES =
     (Inl (Error ''third'') :: error + nat,
      [Warned (RetryWarn 1 3 1000 (Error ''down'')), Slept 1000,
       Warned (RetryWarn 2 3 2000 (Error ''down'')), Slept 2000])"
proof (intro conjI)
  let ?ok = "\<lambda>k::nat. if k = 3 then (Inr (7::nat), []) else (Inl (Error ''down''), [])"
  let ?ko = "\<lambda>k::nat. (Inl (Error (if k = 3 then ''third'' else ''down'')) :: error + nat, [] :: event list)"
  show "retry_loop ?ok 3 1 =
     (fst (retry_loop ?ok 3 (Suc 1)),
      [Warned (RetryWarn 1 3 1000 (Error ''down'')), Slept 1000] @ snd (retry_loop ?ok 3 (Suc 1)))"
    using retry_three [where fn = ?ok and k = 1 and maxRetries = 3 and e = "Error ''down''" and evs = "[]",
        THEN conjunct1]
    by (simp add: RETRY_DELAY_MS_def)
  have ok: "?ok 1 = (Inl (Error ''down''), []) \<and> ?ok 2 = (Inl (Error ''down''), [])
       \<and> ?ok 3 = (Inr 7, [])"
    by simp
  show "retryWithBackoff ?ok MAX_RETRIES =
     (Inr 7, [Warned (RetryWarn 1 3 1000 (Error ''down'')), Slept 1000,
              Warned (RetryWarn 2 3 2000 (Error ''down'')), Slept 2000])"
    using retry_three [where fn = ?ok and ?e1.0 = "Error ''down''" and ?evs1.0 = "[]" and ?e2.0 = "Error ''down''"
        and ?evs2.0 = "[]" and v = 7 and ?evs3.0 = "[]", THEN conjunct2, THEN conjunct1, rule_format, OF ok]
    by (simp add: MAX_RETRIES_def RETRY_DELAY_MS_def)
  have ko: "?ko 1 = (Inl (Error ''down''), []) \<and> ?ko 2 = (Inl (Error ''down''), [])
       \<and> ?ko 3 = (Inl (Error ''third''), [])"
    by simp
  show "retryWithBackoff ?ko MAX_RETRIES =
     (Inl (Error ''third''),
      [Warned (RetryWarn 1 3 1000 (Error ''down'')), Slept 1000,
       Warned (RetryWarn 2 3 2000 (Error ''down'')), Slept 2000])"
    using retry_three [where fn = ?ko and ?e1.0 = "Error ''down''" and ?evs1.0 = "[]" and ?e2.0 = "Error ''down''"
        and ?evs2.0 = "[]" and ?e3.0 = "Error ''third''" and ?evs3.0 = "[]", THEN conjunct2, THEN conjunct2, rule_format, OF ko]
    by (simp add: MAX_RETRIES_def RETRY_DELAY_MS_def)
qed

section \<open>Properties: reconciliation\<close>

lemma emit_simps [simp]:
  "currentPosition (emit evs s) = currentPosition s"
  "cycleCount (emit evs s) = cycleCount s"
  "isCycleRunning (emit evs s) = isCycleRunning s"
  "trace (emit evs s) = trace s @ evs"
  by (simp_all add: emit_def)







section \<open>Properties: the ledger invariant\<close>








lemma scenario_env_simps [simp]:
  "BASE_PRECISION (scenario_env positions cnd book venue) = 1000000000"
  "QUOTE_PRECISION (scenario_env positions cnd book venue) = 1000000"
  "marketMap (scenario_env positions cnd book venue) = scenario_markets"
  "perpPositions (scenario_env positions cnd book venue) = positions"
  "candles (scenario_env positions cnd book venue) = cnd"
  "dlob (scenario_env positions cnd book venue) = book"
  "placePerpOrder (scenario_env positions cnd book venue) = venue"
  by (simp_all add: scenario_env_def)

lemma retryWithBackoff_three:
  "retryWithBackoff fn 3 =
     (case fn 1 of
        (Inr v, evs1) \<Rightarrow> (Inr v, evs1)
      | (Inl e1, evs1) \<Rightarrow>
          (case fn 2 of
             (Inr v, evs2) \<Rightarrow> (Inr v, evs1 @ [Warned (RetryWarn 1 3 1000 e1), Slept 1000] @ evs2)
           | (Inl e2, evs2) \<Rightarrow>
               (case fn 3 of
                  (r, evs3) \<Rightarrow>
                    (r, evs1 @ [Warned (RetryWarn 1 3 1000 e1), Slept 1000]
                          @ evs2 @ [Warned (RetryWarn 2 3 2000 e2), Slept 2000] @ evs3))))"
proof -
  have 3: "retry_loop fn 3 3 = fn 3"
    by (subst retry_loop_unfold) (simp split: prod.splits sum.splits)
  have 2: "retry_loop fn 3 2 =
     (case fn 2 of
        (Inr v, evs2) \<Rightarrow> (Inr v, evs2)
      | (Inl e2, evs2) \<Rightarrow>
          (fst (fn 3), evs2 @ [Warned (RetryWarn 2 3 2000 e2), Slept 2000] @ snd (fn 3)))"
    by (subst retry_loop_unfold) (simp add: 3 RETRY_DELAY_MS_def split: prod.splits sum.splits)
  have 1: "retry_loop fn 3 1 =
     (case fn 1 of
        (Inr v, evs1) \<Rightarrow> (Inr v, evs1)
      | (Inl e1, evs1) \<Rightarrow>
          (fst (retry_loop fn 3 2),
           evs1 @ [Warned (RetryWarn 1 3 1000 e1), Slept 1000] @ snd (retry_loop fn 3 2)))"
    by (subst retry_loop_unfold)
       (simp add: RETRY_DELAY_MS_def numeral_2_eq_2 [symmetric] split: prod.splits sum.splits)
  show ?thesis
    unfolding retryWithBackoff_def 1 2
    by (simp split: prod.splits sum.splits)
qed

lemma placeOrder_accepted:
  "map_of (marketMap env) mkt = Some m \<Longrightarrow>
   placePerpOrder env \<lparr>orderMarketIndex = marketIndex m, direction = dir, quantity = qty, reduceOnly = ro\<rparr> 1 = Inr tx \<Longrightarrow>
   placeOrder env mkt dir qty ro =
     (Inr (Some tx),
      [Submitted \<lparr>orderMarketIndex = marketIndex m, direction = dir, quantity = qty, reduceOnly = ro\<rparr>,
       Confirmed \<lparr>orderMarketIndex = marketIndex m, direction = dir, quantity = qty, reduceOnly = ro\<rparr> tx])"
  by (simp add: placeOrder_def SIMULATION_MODE_def MAX_RETRIES_def retryWithBackoff_three Let_def)

lemma deep_book_liquidity:
  "0 < orderSize \<Longrightarrow> orderSize \<le> 1000 \<Longrightarrow>
   checkLiquidity (scenario_env positions cnd deep_book venue) name sd orderSize
     = (\<lparr>canFill = True, estimatedSlippage = Fin 0\<rparr>, [])"
  by (simp add: checkLiquidity_def deep_book_def Let_def levelSize_def levelPrice_def
      bestPrice_of_def avgPrice_of_def bestSlippage_of_def js_div_def js_abs_def)



section \<open>Properties: the lagged bar\<close>

lemma promise_all2_both:
  "promise_all2 (Inr x, evs) (Inr y, evs') = (Inr (x, y), evs @ evs')"
  by (simp add: promise_all2_def)

lemma cycle_body_fetched:
  assumes "fetchCandleData env ''DRIFT-PERP'' = (Inr driftCandles, evd)"
    and "fetchCandleData env ''KMNO-PERP'' = (Inr kmnoCandles, evk)"
    and "SIGNAL_LAG_PERIODS < length driftCandles"
    and "SIGNAL_LAG_PERIODS < length kmnoCandles"
  shows "cycle_body env s = trade env (cycle_signal driftCandles kmnoCandles) (emit (evd @ evk) s)"
  using assms by (simp add: cycle_body_def promise_all2_both)


lemma fetch_steady_candles:
  "fetchCandleData (scenario_env positions (steady_candles a b) book venue) symbol =
     (Inr (if symbol = ''DRIFT-PERP'' then bars [a, a, a] else bars [b, b, b]), [])"
  by (simp add: fetchCandleData_def MAX_RETRIES_def retryWithBackoff_three steady_candles_def bars_def)



section \<open>Properties: single flight\<close>

lemma openPosition_flag:
  "isCycleRunning (snd (openPosition env sig s)) = isCycleRunning s"
  "cycleCount (snd (openPosition env sig s)) = cycleCount s"
  by (simp_all add: openPosition_def Let_def split: prod.splits sum.splits)

lemma closePosition_flag:
  "isCycleRunning (snd (closePosition env s)) = isCycleRunning s"
  "cycleCount (snd (closePosition env s)) = cycleCount s"
  by (simp_all add: closePosition_def split: option.splits prod.splits sum.splits)

lemma trade_flag:
  "isCycleRunning (snd (trade env sig s)) = isCycleRunning s"
  "cycleCount (snd (trade env sig s)) = cycleCount s"
proof -
  have c: "\<And>e s'. closePosition env s = (e, s') \<Longrightarrow> isCycleRunning s' = isCycleRunning s \<and> cycleCount s' = cycleCount s"
    using closePosition_flag [of env s] by auto
  show "isCycleRunning (snd (trade env sig s)) = isCycleRunning s"
    by (auto simp add: trade_def openPosition_flag split: option.splits prod.splits sum.splits dest: c)
  show "cycleCount (snd (trade env sig s)) = cycleCount s"
    by (auto simp add: trade_def openPosition_flag split: option.splits prod.splits sum.splits dest: c)
qed

lemma cycle_body_flag:
  "isCycleRunning (snd (cycle_body env s)) = isCycleRunning s"
  "cycleCount (snd (cycle_body env s)) = cycleCount s"
  by (simp_all add: cycle_body_def trade_flag split: prod.splits sum.splits)

text \<open>
  Claim C3. Invoked while \<open>isCycleRunning\<close> is set, \<^verbatim>\<open>executeTradingCycle\<close> logs the
  skip (a warning that names cycle \<open>cycleCount + 1\<close>) and returns: the ledger, the cycle
  count and the flag are unchanged and the skip warning is the only event, so no order is
  submitted and the ledger is not assigned. An invocation that finds the flag clear sets it
  before the body starts, and nothing the body runs (fetching, closing, opening) clears it:
  at every point of a running body a new invocation is a skip, so two bodies are never in
  flight together.
\<close>

theorem cycle_single_flight:
  "(isCycleRunning s \<longrightarrow>
      executeTradingCycle env s = emit [Warned (CycleSkipped (cycleCount s + 1))] s
      \<and> currentPosition (executeTradingCycle env s) = currentPosition s
      \<and> cycleCount (executeTradingCycle env s) = cycleCount s
      \<and> isCycleRunning (executeTradingCycle env s)
      \<and> trace (executeTradingCycle env s) = trace s @ [Warned (CycleSkipped (cycleCount s + 1))])
   \<and> (\<not> isCycleRunning s \<longrightarrow>
      executeTradingCycle env s =
        (case cycle_body env (s\<lparr>isCycleRunning := True, cycleCount := cycleCount s + 1\<rparr>) of
           (Inr u, s') \<Rightarrow> s'\<lparr>isCycleRunning := False\<rparr>
         | (Inl e, s') \<Rightarrow> (emit [Errored (CycleFailed (cycleCount s') e)] s')\<lparr>isCycleRunning := False\<rparr>)
      \<and> isCycleRunning (s\<lparr>isCycleRunning := True, cycleCount := cycleCount s + 1\<rparr>))
   \<and> isCycleRunning (snd (cycle_body env s)) = isCycleRunning s
   \<and> isCycleRunning (snd (trade env sig s)) = isCycleRunning s
   \<and> isCycleRunning (snd (closePosition env s)) = isCycleRunning s
   \<and> isCycleRunning (snd (openPosition env sig s)) = isCycleRunning s"
  by (simp add: executeTradingCycle_def cycle_end_def cycle_body_flag trade_flag closePosition_flag
      openPosition_flag)

theorem cycle_single_flight_witness:
  "executeTradingCycle (scenario_env (Inr []) (steady_candles 20 1) deep_book venue_accepts)
       (long_bot\<lparr>isCycleRunning := True\<rparr>)
     = \<lparr>currentPosition = Some \<lparr>drift = 10, kmno = - 100, signal = 1\<rparr>,
        cycleCount = 1, isCycleRunning = True, trace = [Warned (CycleSkipped 2)]\<rparr>
   \<and> isCycleRunning (fresh_bot\<lparr>isCycleRunning := True, cycleCount := cycleCount fresh_bot + 1\<rparr>)"
proof (intro conjI)
  have r: "isCycleRunning (long_bot\<lparr>isCycleRunning := True\<rparr>)" by simp
  show "executeTradingCycle (scenario_env (Inr []) (steady_candles 20 1) deep_book venue_accepts)
       (long_bot\<lparr>isCycleRunning := True\<rparr>)
     = \<lparr>currentPosition = Some \<lparr>drift = 10, kmno = - 100, signal = 1\<rparr>,
        cycleCount = 1, isCycleRunning = True, trace = [Warned (CycleSkipped 2)]\<rparr>"
    using cycle_single_flight [THEN conjunct1, rule_format, OF r, THEN conjunct1,
        of "scenario_env (Inr []) (steady_candles 20 1) deep_book venue_accepts"]
    by (simp add: long_bot_def emit_def)
  have n: "\<not> isCycleRunning fresh_bot" by (simp add: fresh_bot_def)
  show "isCycleRunning (fresh_bot\<lparr>isCycleRunning := True, cycleCount := cycleCount fresh_bot + 1\<rparr>)"
    using cycle_single_flight [THEN conjunct2, THEN conjunct1, rule_format, OF n, THEN conjunct2] .
qed

section \<open>Properties: the depth walk\<close>

lemma book_size_simps [simp]:
  "book_size env [] = 0"
  "book_size env (order # rest) = levelSize env order + book_size env rest"
  by (simp_all add: book_size_def)

lemma book_notional_simps [simp]:
  "book_notional env [] = 0"
  "book_notional env (order # rest) = levelSize env order * levelPrice env order + book_notional env rest"
  by (simp_all add: book_notional_def)














section \<open>Properties: events of the order phases\<close>

lemma retry_three_events:
  assumes "\<And>k ev. ev \<in> set (snd (fn k)) \<Longrightarrow> P ev"
    and "\<And>a b c d. P (Warned (RetryWarn a b c d))"
    and "\<And>n. P (Slept n)"
    and "ev \<in> set (snd (retryWithBackoff fn 3))"
  shows "P ev"
proof -
  have 1: "\<And>r evs ev. fn (Suc 0) = (r, evs) \<Longrightarrow> ev \<in> set evs \<Longrightarrow> P ev"
    and 2: "\<And>r evs ev. fn 2 = (r, evs) \<Longrightarrow> ev \<in> set evs \<Longrightarrow> P ev"
    and 3: "\<And>r evs ev. fn 3 = (r, evs) \<Longrightarrow> ev \<in> set evs \<Longrightarrow> P ev"
    using assms(1) [of _ "Suc 0"] assms(1) [of _ 2] assms(1) [of _ 3] by auto
  from assms(4) show ?thesis
    unfolding retryWithBackoff_three
    by (auto split: prod.splits sum.splits dest: 1 2 3 intro: assms(2) assms(3))
qed

lemma placeOrder_events:
  assumes "ev \<in> set (snd (placeOrder env mkt dir qty ro))"
  shows "\<not> is_order_with (\<not> ro) ev \<and> \<not> is_assignment ev"
proof -
  let ?fn = "\<lambda>attempt::nat.
             case map_of (marketMap env) mkt of
               None \<Rightarrow>
                 (Inl (Error (''Market config not found for '' @ mkt)) :: error + string option,
                  [Errored (OrderFailed mkt dir qty ro (Error (''Market config not found for '' @ mkt)))])
             | Some marketConfig \<Rightarrow>
                 (let params = \<lparr>orderMarketIndex = marketIndex marketConfig, direction = dir,
                                quantity = qty, reduceOnly = ro\<rparr>
                  in case placePerpOrder env params attempt of
                       Inr tx \<Rightarrow> (Inr (Some tx), [Submitted params, Confirmed params tx])
                     | Inl e \<Rightarrow> (Inl e, [Submitted params, Errored (OrderFailed mkt dir qty ro e)]))"
  have ev: "ev \<in> set (snd (retryWithBackoff ?fn 3))"
    using assms by (simp add: placeOrder_def SIMULATION_MODE_def MAX_RETRIES_def)
  show ?thesis
  proof (rule retry_three_events [where fn = ?fn and P = "\<lambda>ev. \<not> is_order_with (\<not> ro) ev \<and> \<not> is_assignment ev", OF _ _ _ ev])
    fix k ev assume "ev \<in> set (snd (?fn k))"
    then show "\<not> is_order_with (\<not> ro) ev \<and> \<not> is_assignment ev"
      by (auto simp add: Let_def is_order_with_def is_assignment_def split: option.splits sum.splits)
  qed (simp_all add: is_order_with_def is_assignment_def)
qed

lemma placeOrder_confirmed:
  assumes "fst (placeOrder env mkt dir qty ro) = Inr r"
  shows "\<exists>m tx. map_of (marketMap env) mkt = Some m
           \<and> Confirmed \<lparr>orderMarketIndex = marketIndex m, direction = dir, quantity = qty,
                          reduceOnly = ro\<rparr> tx \<in> set (snd (placeOrder env mkt dir qty ro))"
proof (cases "map_of (marketMap env) mkt")
  case None
  with assms show ?thesis
    by (simp add: placeOrder_def SIMULATION_MODE_def MAX_RETRIES_def retryWithBackoff_three)
next
  case (Some m)
  let ?ps = "\<lparr>orderMarketIndex = marketIndex m, direction = dir, quantity = qty, reduceOnly = ro\<rparr>"
  from assms Some have "\<exists>tx. Confirmed ?ps tx \<in> set (snd (placeOrder env mkt dir qty ro))"
    by (auto simp add: placeOrder_def SIMULATION_MODE_def MAX_RETRIES_def retryWithBackoff_three Let_def
        split: sum.splits)
  with Some show ?thesis by blast
qed

text \<open>A \<^verbatim>\<open>placeOrder\<close> that throws has called the venue three times, each call has
  failed, and the error thrown is that of the third call.\<close>

lemma placeOrder_exhausted:
  assumes "fst (placeOrder env mkt dir qty ro) = Inl e"
    and "map_of (marketMap env) mkt = Some m"
  shows "\<exists>e1 e2.
      placePerpOrder env \<lparr>orderMarketIndex = marketIndex m, direction = dir, quantity = qty, reduceOnly = ro\<rparr> 1 = Inl e1
    \<and> placePerpOrder env \<lparr>orderMarketIndex = marketIndex m, direction = dir, quantity = qty, reduceOnly = ro\<rparr> 2 = Inl e2
    \<and> placePerpOrder env \<lparr>orderMarketIndex = marketIndex m, direction = dir, quantity = qty, reduceOnly = ro\<rparr> 3 = Inl e"
  using assms
  by (auto simp add: placeOrder_def SIMULATION_MODE_def MAX_RETRIES_def retryWithBackoff_three Let_def
      split: sum.splits)

lemma promise_all_events:
  "snd (promise_all ps) = concat (map snd ps)"
  by (induction ps) (auto split: prod.splits)

lemma promise_all_rejects:
  "p \<in> set ps \<Longrightarrow> fst p = Inl e \<Longrightarrow> \<exists>e'. fst (promise_all ps) = Inl e'"
  by (induction ps) (auto split: prod.splits sum.splits)

lemma promise_all_resolves:
  "fst (promise_all ps) = Inr vs \<Longrightarrow> p \<in> set ps \<Longrightarrow> \<exists>v. fst p = Inr v"
  by (induction ps arbitrary: vs) (auto split: prod.splits sum.splits)

lemma close_orders_events:
  assumes "ev \<in> set (snd (promise_all (close_orders env p)))"
  shows "\<not> is_order_with False ev \<and> \<not> is_assignment ev"
  using assms placeOrder_events [of ev env _ _ _ True]
  by (auto simp add: promise_all_events close_orders_def split: if_splits)

lemma fetchCandleData_events:
  assumes "ev \<in> set (snd (fetchCandleData env symbol))"
  shows "\<not> is_order_with ro ev \<and> \<not> is_assignment ev"
proof (rule retry_three_events [where fn = "\<lambda>attempt. (candles env symbol attempt, [])"
      and P = "\<lambda>ev. \<not> is_order_with ro ev \<and> \<not> is_assignment ev"])
  show "ev \<in> set (snd (retryWithBackoff (\<lambda>attempt. (candles env symbol attempt, [])) 3))"
    using assms by (simp add: fetchCandleData_def MAX_RETRIES_def)
qed (simp_all add: is_order_with_def is_assignment_def)

lemma checkLiquidity_events:
  "ev \<in> set (snd (checkLiquidity env name sd orderSize)) \<Longrightarrow>
   \<not> is_order_with ro ev \<and> \<not> is_assignment ev"
  by (auto simp add: checkLiquidity_def Let_def is_order_with_def is_assignment_def
      split: sum.splits if_splits)

section \<open>Properties: the direction flip\<close>

lemma cycle_fetched:
  assumes "\<not> isCycleRunning s"
    and "fetchCandleData env ''DRIFT-PERP'' = (Inr driftCandles, evd)"
    and "fetchCandleData env ''KMNO-PERP'' = (Inr kmnoCandles, evk)"
    and "SIGNAL_LAG_PERIODS < length driftCandles"
    and "SIGNAL_LAG_PERIODS < length kmnoCandles"
  shows "executeTradingCycle env s =
     cycle_end (trade env (cycle_signal driftCandles kmnoCandles)
       (emit (evd @ evk) (s\<lparr>isCycleRunning := True, cycleCount := cycleCount s + 1\<rparr>)))"
  using assms by (simp add: executeTradingCycle_def cycle_body_fetched)

lemma closePosition_rejected:
  assumes "currentPosition s = Some p"
    and "promise_all (close_orders env p) = (Inl e, evs)"
  shows "closePosition env s = (Inl e, emit (evs @ [Errored (CloseFailed e)]) s)"
  using assms by (simp add: closePosition_def)

lemma closePosition_resolved:
  assumes "currentPosition s = Some p"
    and "promise_all (close_orders env p) = (Inr txs, evs)"
  shows "closePosition env s = (Inr (), emit [Assigned None] ((emit evs s)\<lparr>currentPosition := None\<rparr>))"
  using assms by (simp add: closePosition_def)

lemma trade_close_rejected:
  assumes "currentPosition s = Some p"
    and "signal p \<noteq> sig"
    and "promise_all (close_orders env p) = (Inl e, evs)"
  shows "trade env sig s = (Inl e, emit (evs @ [Errored (CloseFailed e)]) s)"
  using assms by (simp add: trade_def closePosition_rejected)

lemma openPosition_outcome:
  assumes "sig \<noteq> 0"
  shows "\<exists>evs.
     (\<forall>ev\<in>set evs. \<not> is_order_with True ev \<and> \<not> is_assignment ev)
     \<and> (case fst (openPosition env sig s) of
          Inl e \<Rightarrow>
            snd (openPosition env sig s) = emit (evs @ [Errored (OpenFailed e)]) s
        | Inr u \<Rightarrow>
            snd (openPosition env sig s) =
              emit [Assigned (Some \<lparr>drift = real_of_int sig * DRIFT_QUANTITY,
                                     kmno = - real_of_int sig * KMNO_QUANTITY, signal = sig\<rparr>)]
                ((emit evs s)\<lparr>currentPosition :=
                     Some \<lparr>drift = real_of_int sig * DRIFT_QUANTITY,
                           kmno = - real_of_int sig * KMNO_QUANTITY, signal = sig\<rparr>\<rparr>)
            \<and> (\<exists>m tx. map_of (marketMap env) ''DRIFT'' = Some m
                  \<and> Confirmed \<lparr>orderMarketIndex = marketIndex m,
                        direction = (if sig > 0 then LONG else SHORT),
                        quantity = DRIFT_QUANTITY, reduceOnly = False\<rparr> tx \<in> set evs)
            \<and> (\<exists>m tx. map_of (marketMap env) ''KMNO'' = Some m
                  \<and> Confirmed \<lparr>orderMarketIndex = marketIndex m,
                        direction = (if sig > 0 then SHORT else LONG),
                        quantity = KMNO_QUANTITY, reduceOnly = False\<rparr> tx \<in> set evs))"
proof -
  let ?dd = "if sig > 0 then LONG else SHORT"
  let ?kd = "if sig > 0 then SHORT else LONG"
  let ?dc = "checkLiquidity env ''DRIFT-PERP'' (if ?dd = LONG then asks else bids) DRIFT_QUANTITY"
  let ?kc = "checkLiquidity env ''KMNO-PERP'' (if ?kd = LONG then asks else bids) KMNO_QUANTITY"
  let ?liq = "snd ?dc @ snd ?kc
                @ (if \<not> canFill (fst ?dc) then [Warned InsufficientDriftLiquidity] else [])
                @ (if \<not> canFill (fst ?kc) then [Warned InsufficientKmnoLiquidity] else [])"
  let ?po = "placeOrder env ''DRIFT'' ?dd DRIFT_QUANTITY False"
  let ?pk = "placeOrder env ''KMNO'' ?kd KMNO_QUANTITY False"
  let ?ords = "promise_all [?po, ?pk]"
  have liq: "\<forall>ev\<in>set ?liq. \<not> is_order_with True ev \<and> \<not> is_assignment ev"
    using checkLiquidity_events [of _ env _ _ _ True]
    by (auto simp add: is_order_with_def is_assignment_def)
  have ords: "\<forall>ev\<in>set (snd ?ords). \<not> is_order_with True ev \<and> \<not> is_assignment ev"
    using placeOrder_events [of _ env _ _ _ False]
    by (auto simp add: promise_all_events)
  show ?thesis
  proof (cases "js_gt (estimatedSlippage (fst ?dc)) (MAX_SLIPPAGE_BPS / 10000)
               \<or> js_gt (estimatedSlippage (fst ?kc)) (MAX_SLIPPAGE_BPS / 10000)")
    case True
    have "(\<forall>ev\<in>set ?liq. \<not> is_order_with True ev \<and> \<not> is_assignment ev)
      \<and> (case fst (openPosition env sig s) of
          Inl e \<Rightarrow> snd (openPosition env sig s) = emit (?liq @ [Errored (OpenFailed e)]) s
        | Inr u \<Rightarrow> False)"
      using True assms liq
      by (auto simp add: openPosition_def Let_def emit_def)
    then show ?thesis
      by (intro exI [of _ ?liq]) (auto split: sum.splits)
  next
    case False
    show ?thesis
    proof (cases "fst ?ords")
      case (Inl e)
      have "snd (openPosition env sig s) = emit ((?liq @ snd ?ords) @ [Errored (OpenFailed e)]) s
          \<and> fst (openPosition env sig s) = Inl e"
        using False assms Inl
        by (cases ?ords) (simp add: openPosition_def Let_def emit_def)
      with liq ords show ?thesis
        by (intro exI [of _ "?liq @ snd ?ords"]) auto
    next
      case (Inr txs)
      let ?p = "\<lparr>drift = real_of_int sig * DRIFT_QUANTITY,
                  kmno = - real_of_int sig * KMNO_QUANTITY, signal = sig\<rparr>"
      have r: "snd (openPosition env sig s) =
            emit [Assigned (Some ?p)] ((emit (?liq @ snd ?ords) s)\<lparr>currentPosition := Some ?p\<rparr>)
          \<and> fst (openPosition env sig s) = Inr ()"
        using False assms Inr
        by (cases ?ords) (simp add: openPosition_def Let_def emit_def)
      from Inr promise_all_resolves [of "[?po, ?pk]" txs ?po]
      obtain v where "fst ?po = Inr v" by auto
      from placeOrder_confirmed [OF this]
      have cd: "\<exists>m tx. map_of (marketMap env) ''DRIFT'' = Some m
                  \<and> Confirmed \<lparr>orderMarketIndex = marketIndex m, direction = ?dd,
                        quantity = DRIFT_QUANTITY, reduceOnly = False\<rparr> tx \<in> set (?liq @ snd ?ords)"
        by (auto simp add: promise_all_events)
      from Inr promise_all_resolves [of "[?po, ?pk]" txs ?pk]
      obtain v' where "fst ?pk = Inr v'" by auto
      from placeOrder_confirmed [OF this]
      have ck: "\<exists>m tx. map_of (marketMap env) ''KMNO'' = Some m
                  \<and> Confirmed \<lparr>orderMarketIndex = marketIndex m, direction = ?kd,
                        quantity = KMNO_QUANTITY, reduceOnly = False\<rparr> tx \<in> set (?liq @ snd ?ords)"
        by (auto simp add: promise_all_events)
      from r liq ords cd ck show ?thesis
        by (intro exI [of _ "?liq @ snd ?ords"]) (simp add: ball_Un)
    qed
  qed
qed

lemma cycle_end_rejected:
  "cycle_end (Inl e, s) = (emit [Errored (CycleFailed (cycleCount s) e)] s)\<lparr>isCycleRunning := False\<rparr>"
  by (simp add: cycle_end_def)

lemma cycle_end_resolved:
  "cycle_end (Inr u, s) = s\<lparr>isCycleRunning := False\<rparr>"
  by (simp add: cycle_end_def)

lemma cycle_close_rejected:
  assumes "\<not> isCycleRunning s"
    and "currentPosition s = Some p"
    and "fetchCandleData env ''DRIFT-PERP'' = (Inr driftCandles, evd)"
    and "fetchCandleData env ''KMNO-PERP'' = (Inr kmnoCandles, evk)"
    and "SIGNAL_LAG_PERIODS < length driftCandles"
    and "SIGNAL_LAG_PERIODS < length kmnoCandles"
    and "cycle_signal driftCandles kmnoCandles \<noteq> signal p"
    and "fst (promise_all (close_orders env p)) = Inl e"
  shows "executeTradingCycle env s =
     s\<lparr>cycleCount := cycleCount s + 1,
       trace := trace s @ evd @ evk @ snd (promise_all (close_orders env p))
                  @ [Errored (CloseFailed e), Errored (CycleFailed (cycleCount s + 1) e)]\<rparr>"
proof -
  let ?s0 = "emit (evd @ evk) (s\<lparr>isCycleRunning := True, cycleCount := cycleCount s + 1\<rparr>)"
  have p: "promise_all (close_orders env p) = (Inl e, snd (promise_all (close_orders env p)))"
    using assms(8) by (cases "promise_all (close_orders env p)") simp
  have "trade env (cycle_signal driftCandles kmnoCandles) ?s0
      = (Inl e, emit (snd (promise_all (close_orders env p)) @ [Errored (CloseFailed e)]) ?s0)"
    using assms(2,7) by (intro trade_close_rejected [OF _ _ p]) auto
  then show ?thesis
    using assms(1)
    by (simp add: cycle_fetched [OF assms(1,3,4,5,6)] cycle_end_rejected emit_def)
qed

text \<open>
  Claim C1. In a cycle whose new signal differs from the ledger's, when one leg's close
  order confirms and the other leg's has failed all its attempts, the close rejects and the
  cycle ends with the ledger as it was before the cycle (the last confirmed state): the
  ledger is never assigned, the only order calls of the cycle are the reduce-only calls of
  the close, and nothing of the open step runs. The cycle logs the failure of the close and
  of the cycle. \<^verbatim>\<open>closePosition\<close> itself, wherever it is called from, throws the
  error and leaves the state as it was but for the events of the two legs and the log line.
\<close>

theorem close_leg_failure_keeps_ledger:
  assumes "\<not> isCycleRunning s"
    and "currentPosition s = Some p"
    and "drift p \<noteq> 0" and "kmno p \<noteq> 0"
    and "fetchCandleData env ''DRIFT-PERP'' = (Inr driftCandles, evd)"
    and "fetchCandleData env ''KMNO-PERP'' = (Inr kmnoCandles, evk)"
    and "SIGNAL_LAG_PERIODS < length driftCandles"
    and "SIGNAL_LAG_PERIODS < length kmnoCandles"
    and "cycle_signal driftCandles kmnoCandles \<noteq> signal p"
    and "(fst (placeOrder env ''DRIFT'' (if drift p > 0 then SHORT else LONG) \<bar>drift p\<bar> True) = Inr txd
          \<and> fst (placeOrder env ''KMNO'' (if kmno p > 0 then SHORT else LONG) \<bar>kmno p\<bar> True) = Inl e')
       \<or> (fst (placeOrder env ''DRIFT'' (if drift p > 0 then SHORT else LONG) \<bar>drift p\<bar> True) = Inl e'
          \<and> fst (placeOrder env ''KMNO'' (if kmno p > 0 then SHORT else LONG) \<bar>kmno p\<bar> True) = Inr txk)"
  shows "fst (promise_all (close_orders env p)) = Inl e'
     \<and> closePosition env s
          = (Inl e', emit (snd (promise_all (close_orders env p)) @ [Errored (CloseFailed e')]) s)
     \<and> executeTradingCycle env s =
          s\<lparr>cycleCount := cycleCount s + 1,
            trace := trace s @ evd @ evk @ snd (promise_all (close_orders env p))
                       @ [Errored (CloseFailed e'), Errored (CycleFailed (cycleCount s + 1) e')]\<rparr>
     \<and> currentPosition (executeTradingCycle env s) = currentPosition s
     \<and> (\<forall>ev\<in>set (evd @ evk @ snd (promise_all (close_orders env p))
                   @ [Errored (CloseFailed e'), Errored (CycleFailed (cycleCount s + 1) e')]).
           \<not> is_order_with False ev \<and> \<not> is_assignment ev)"
proof -
  let ?d = "placeOrder env ''DRIFT'' (if drift p > 0 then SHORT else LONG) \<bar>drift p\<bar> True"
  let ?k = "placeOrder env ''KMNO'' (if kmno p > 0 then SHORT else LONG) \<bar>kmno p\<bar> True"
  have c: "close_orders env p = [?d, ?k]"
    using assms(3,4) by (simp add: close_orders_def)
  have rej: "fst (promise_all (close_orders env p)) = Inl e'"
    using assms(10) unfolding c
    by (cases ?d; cases ?k) auto
  have cyc: "executeTradingCycle env s =
          s\<lparr>cycleCount := cycleCount s + 1,
            trace := trace s @ evd @ evk @ snd (promise_all (close_orders env p))
                       @ [Errored (CloseFailed e'), Errored (CycleFailed (cycleCount s + 1) e')]\<rparr>"
    by (rule cycle_close_rejected [OF assms(1,2,5,6,7,8,9) rej])
  have evs: "\<forall>ev\<in>set (evd @ evk @ snd (promise_all (close_orders env p))
                   @ [Errored (CloseFailed e'), Errored (CycleFailed (cycleCount s + 1) e')]).
           \<not> is_order_with False ev \<and> \<not> is_assignment ev"
    using fetchCandleData_events [of _ env "''DRIFT-PERP''" False]
      fetchCandleData_events [of _ env "''KMNO-PERP''" False]
      close_orders_events [of _ env p] assms(5,6)
    by (auto simp add: is_order_with_def is_assignment_def)
  have cls: "closePosition env s
          = (Inl e', emit (snd (promise_all (close_orders env p)) @ [Errored (CloseFailed e')]) s)"
    using rej by (intro closePosition_rejected [OF assms(2)]) (cases "promise_all (close_orders env p)", simp)
  from rej cls cyc evs show ?thesis by simp
qed

lemma placeOrder_rejected_thrice:
  "map_of (marketMap env) mkt = Some m \<Longrightarrow>
   (\<And>k. placePerpOrder env \<lparr>orderMarketIndex = marketIndex m, direction = dir, quantity = qty, reduceOnly = ro\<rparr> k = Inl e) \<Longrightarrow>
   fst (placeOrder env mkt dir qty ro) = Inl e"
  by (simp add: placeOrder_def SIMULATION_MODE_def MAX_RETRIES_def retryWithBackoff_three Let_def)

lemma scenario_market_lookup:
  "map_of scenario_markets ''DRIFT'' = Some \<lparr>marketIndex = 30, baseAssetSymbol = ''DRIFT''\<rparr>"
  "map_of scenario_markets ''KMNO'' = Some \<lparr>marketIndex = 28, baseAssetSymbol = ''KMNO''\<rparr>"
  by (simp_all add: scenario_markets_def)

theorem close_leg_failure_keeps_ledger_witness:
  "fst (promise_all (close_orders
          (scenario_env (Inr []) (steady_candles 20 1) deep_book venue_rejects_kmno_close)
          \<lparr>drift = 10, kmno = - 100, signal = 1\<rparr>)) = Inl (Error ''timeout'')
   \<and> currentPosition (executeTradingCycle
          (scenario_env (Inr []) (steady_candles 20 1) deep_book venue_rejects_kmno_close) long_bot)
       = Some \<lparr>drift = 10, kmno = - 100, signal = 1\<rparr>"
proof -
  let ?env = "scenario_env (Inr []) (steady_candles 20 1) deep_book venue_rejects_kmno_close"
  let ?p = "\<lparr>drift = 10, kmno = - 100, signal = 1\<rparr> :: Position"
  have 1: "\<not> isCycleRunning long_bot" by (simp add: long_bot_def)
  have 2: "currentPosition long_bot = Some ?p" by (simp add: long_bot_def)
  have 3: "drift ?p \<noteq> 0" and 4: "kmno ?p \<noteq> 0" by simp_all
  have 5: "fetchCandleData ?env ''DRIFT-PERP'' = (Inr (bars [20, 20, 20]), [])"
    and 6: "fetchCandleData ?env ''KMNO-PERP'' = (Inr (bars [1, 1, 1]), [])"
    by (simp_all add: fetch_steady_candles)
  have 7: "SIGNAL_LAG_PERIODS < length (bars [20, 20, 20])"
    and 8: "SIGNAL_LAG_PERIODS < length (bars [1, 1, 1])"
    by (simp_all add: SIGNAL_LAG_PERIODS_def bars_def)
  have 9: "cycle_signal (bars [20, 20, 20]) (bars [1, 1, 1]) \<noteq> signal ?p"
    by (simp add: cycle_signal_def SIGNAL_LAG_PERIODS_def bars_def spread_of_def signal_of_def
        PRICE_RATIO_def)
  have d: "fst (placeOrder ?env ''DRIFT'' (if drift ?p > 0 then SHORT else LONG) \<bar>drift ?p\<bar> True)
      = Inr (Some ''tx'')"
    using placeOrder_accepted [of ?env "''DRIFT''" "\<lparr>marketIndex = 30, baseAssetSymbol = ''DRIFT''\<rparr>"
        SHORT 10 True "''tx''"]
    by (simp add: scenario_market_lookup venue_rejects_kmno_close_def)
  have k: "fst (placeOrder ?env ''KMNO'' (if kmno ?p > 0 then SHORT else LONG) \<bar>kmno ?p\<bar> True)
      = Inl (Error ''timeout'')"
    using placeOrder_rejected_thrice [of ?env "''KMNO''" "\<lparr>marketIndex = 28, baseAssetSymbol = ''KMNO''\<rparr>"
        LONG 100 True "Error ''timeout''"]
    by (simp add: scenario_market_lookup venue_rejects_kmno_close_def)
  from close_leg_failure_keeps_ledger [OF 1 2 3 4 5 6 7 8 9 disjI1 [OF conjI [OF d k]]] 2
  show ?thesis by simp
qed

lemma close_orders_confirmed:
  assumes "fst (promise_all (close_orders env p)) = Inr txs"
  shows "(drift p \<noteq> 0 \<longrightarrow>
           (\<exists>m tx. map_of (marketMap env) ''DRIFT'' = Some m
              \<and> Confirmed \<lparr>orderMarketIndex = marketIndex m,
                    direction = (if drift p > 0 then SHORT else LONG),
                    quantity = \<bar>drift p\<bar>, reduceOnly = True\<rparr> tx
                  \<in> set (snd (promise_all (close_orders env p)))))
       \<and> (kmno p \<noteq> 0 \<longrightarrow>
           (\<exists>m tx. map_of (marketMap env) ''KMNO'' = Some m
              \<and> Confirmed \<lparr>orderMarketIndex = marketIndex m,
                    direction = (if kmno p > 0 then SHORT else LONG),
                    quantity = \<bar>kmno p\<bar>, reduceOnly = True\<rparr> tx
                  \<in> set (snd (promise_all (close_orders env p)))))"
proof (intro conjI impI)
  let ?d = "placeOrder env ''DRIFT'' (if drift p > 0 then SHORT else LONG) \<bar>drift p\<bar> True"
  let ?k = "placeOrder env ''KMNO'' (if kmno p > 0 then SHORT else LONG) \<bar>kmno p\<bar> True"
  {
    assume "drift p \<noteq> 0"
    then have in_d: "?d \<in> set (close_orders env p)" by (simp add: close_orders_def)
    from promise_all_resolves [OF assms in_d] obtain v where "fst ?d = Inr v" by blast
    from placeOrder_confirmed [OF this] obtain m tx where
      m: "map_of (marketMap env) ''DRIFT'' = Some m"
      and c: "Confirmed \<lparr>orderMarketIndex = marketIndex m,
                    direction = (if drift p > 0 then SHORT else LONG),
                    quantity = \<bar>drift p\<bar>, reduceOnly = True\<rparr> tx \<in> set (snd ?d)"
      by blast
    from c in_d have "Confirmed \<lparr>orderMarketIndex = marketIndex m,
                    direction = (if drift p > 0 then SHORT else LONG),
                    quantity = \<bar>drift p\<bar>, reduceOnly = True\<rparr> tx
                  \<in> set (snd (promise_all (close_orders env p)))"
      unfolding promise_all_events set_concat set_map by (intro UN_I [of "snd ?d"] imageI)
    with m show "\<exists>m tx. map_of (marketMap env) ''DRIFT'' = Some m
              \<and> Confirmed \<lparr>orderMarketIndex = marketIndex m,
                    direction = (if drift p > 0 then SHORT else LONG),
                    quantity = \<bar>drift p\<bar>, reduceOnly = True\<rparr> tx
                  \<in> set (snd (promise_all (close_orders env p)))"
      by blast
  }
  {
    assume "kmno p \<noteq> 0"
    then have in_k: "?k \<in> set (close_orders env p)" by (simp add: close_orders_def)
    from promise_all_resolves [OF assms in_k] obtain v where "fst ?k = Inr v" by blast
    from placeOrder_confirmed [OF this] obtain m tx where
      m: "map_of (marketMap env) ''KMNO'' = Some m"
      and c: "Confirmed \<lparr>orderMarketIndex = marketIndex m,
                    direction = (if kmno p > 0 then SHORT else LONG),
                    quantity = \<bar>kmno p\<bar>, reduceOnly = True\<rparr> tx \<in> set (snd ?k)"
      by blast
    from c in_k have "Confirmed \<lparr>orderMarketIndex = marketIndex m,
                    direction = (if kmno p > 0 then SHORT else LONG),
                    quantity = \<bar>kmno p\<bar>, reduceOnly = True\<rparr> tx
                  \<in> set (snd (promise_all (close_orders env p)))"
      unfolding promise_all_events set_concat set_map by (intro UN_I [of "snd ?k"] imageI)
    with m show "\<exists>m tx. map_of (marketMap env) ''KMNO'' = Some m
              \<and> Confirmed \<lparr>orderMarketIndex = marketIndex m,
                    direction = (if kmno p > 0 then SHORT else LONG),
                    quantity = \<bar>kmno p\<bar>, reduceOnly = True\<rparr> tx
                  \<in> set (snd (promise_all (close_orders env p)))"
      by blast
  }
qed

lemma openPosition_flat_signal:
  "openPosition env 0 s = (Inr (), s)"
  by (simp add: openPosition_def)

lemma trade_close_resolved:
  assumes "currentPosition s = Some p"
    and "signal p \<noteq> sig"
    and "promise_all (close_orders env p) = (Inr txs, evs)"
  shows "trade env sig s =
     openPosition env sig (emit [Assigned None] ((emit evs s)\<lparr>currentPosition := None\<rparr>))"
  using assms by (simp add: trade_def closePosition_resolved openPosition_flat_signal)

lemma cycle_close_resolved:
  assumes "\<not> isCycleRunning s"
    and "currentPosition s = Some p"
    and "fetchCandleData env ''DRIFT-PERP'' = (Inr driftCandles, evd)"
    and "fetchCandleData env ''KMNO-PERP'' = (Inr kmnoCandles, evk)"
    and "SIGNAL_LAG_PERIODS < length driftCandles"
    and "SIGNAL_LAG_PERIODS < length kmnoCandles"
    and "cycle_signal driftCandles kmnoCandles \<noteq> signal p"
    and "fst (promise_all (close_orders env p)) = Inr txs"
  shows "executeTradingCycle env s =
     cycle_end (openPosition env (cycle_signal driftCandles kmnoCandles)
       (s\<lparr>isCycleRunning := True, cycleCount := cycleCount s + 1, currentPosition := None,
          trace := trace s @ evd @ evk @ snd (promise_all (close_orders env p)) @ [Assigned None]\<rparr>))"
proof -
  let ?s0 = "emit (evd @ evk) (s\<lparr>isCycleRunning := True, cycleCount := cycleCount s + 1\<rparr>)"
  let ?sig = "cycle_signal driftCandles kmnoCandles"
  have p: "promise_all (close_orders env p) = (Inr txs, snd (promise_all (close_orders env p)))"
    using assms(8) by (cases "promise_all (close_orders env p)") simp
  have "trade env ?sig ?s0 =
      openPosition env ?sig (emit [Assigned None]
         ((emit (snd (promise_all (close_orders env p))) ?s0)\<lparr>currentPosition := None\<rparr>))"
    using assms(2,7) by (intro trade_close_resolved [OF _ _ p]) auto
  then show ?thesis
    by (simp add: cycle_fetched [OF assms(1,3,4,5,6)] emit_def)
qed

lemma cycle_end_open:
  assumes "sig \<noteq> 0" and "isCycleRunning s1"
  shows "\<exists>evs.
     (\<forall>ev\<in>set evs. \<not> is_order_with True ev \<and> \<not> is_assignment ev)
     \<and> (case fst (openPosition env sig s1) of
          Inl e \<Rightarrow>
            currentPosition (cycle_end (openPosition env sig s1)) = currentPosition s1
            \<and> trace (cycle_end (openPosition env sig s1))
                = trace s1 @ evs @ [Errored (OpenFailed e), Errored (CycleFailed (cycleCount s1) e)]
        | Inr u \<Rightarrow>
            currentPosition (cycle_end (openPosition env sig s1))
                = Some \<lparr>drift = real_of_int sig * DRIFT_QUANTITY,
                         kmno = - real_of_int sig * KMNO_QUANTITY, signal = sig\<rparr>
            \<and> trace (cycle_end (openPosition env sig s1))
                = trace s1 @ evs
                  @ [Assigned (Some \<lparr>drift = real_of_int sig * DRIFT_QUANTITY,
                                       kmno = - real_of_int sig * KMNO_QUANTITY, signal = sig\<rparr>)]
            \<and> (\<exists>m tx. map_of (marketMap env) ''DRIFT'' = Some m
                  \<and> Confirmed \<lparr>orderMarketIndex = marketIndex m,
                        direction = (if sig > 0 then LONG else SHORT),
                        quantity = DRIFT_QUANTITY, reduceOnly = False\<rparr> tx \<in> set evs)
            \<and> (\<exists>m tx. map_of (marketMap env) ''KMNO'' = Some m
                  \<and> Confirmed \<lparr>orderMarketIndex = marketIndex m,
                        direction = (if sig > 0 then SHORT else LONG),
                        quantity = KMNO_QUANTITY, reduceOnly = False\<rparr> tx \<in> set evs))"
proof -
  from openPosition_outcome [OF assms(1), of env s1] obtain evs where
    a: "\<forall>ev\<in>set evs. \<not> is_order_with True ev \<and> \<not> is_assignment ev"
    and b: "case fst (openPosition env sig s1) of
          Inl e \<Rightarrow>
            snd (openPosition env sig s1) = emit (evs @ [Errored (OpenFailed e)]) s1
        | Inr u \<Rightarrow>
            snd (openPosition env sig s1) =
              emit [Assigned (Some \<lparr>drift = real_of_int sig * DRIFT_QUANTITY,
                                     kmno = - real_of_int sig * KMNO_QUANTITY, signal = sig\<rparr>)]
                ((emit evs s1)\<lparr>currentPosition :=
                     Some \<lparr>drift = real_of_int sig * DRIFT_QUANTITY,
                           kmno = - real_of_int sig * KMNO_QUANTITY, signal = sig\<rparr>\<rparr>)
            \<and> (\<exists>m tx. map_of (marketMap env) ''DRIFT'' = Some m
                  \<and> Confirmed \<lparr>orderMarketIndex = marketIndex m,
                        direction = (if sig > 0 then LONG else SHORT),
                        quantity = DRIFT_QUANTITY, reduceOnly = False\<rparr> tx \<in> set evs)
            \<and> (\<exists>m tx. map_of (marketMap env) ''KMNO'' = Some m
                  \<and> Confirmed \<lparr>orderMarketIndex = marketIndex m,
                        direction = (if sig > 0 then SHORT else LONG),
                        quantity = KMNO_QUANTITY, reduceOnly = False\<rparr> tx \<in> set evs)"
    by blast
  have c: "cycle_end (openPosition env sig s1)
      = cycle_end (fst (openPosition env sig s1), snd (openPosition env sig s1))"
    by simp
  show ?thesis
  proof (cases "fst (openPosition env sig s1)")
    case (Inl e)
    with b have "snd (openPosition env sig s1) = emit (evs @ [Errored (OpenFailed e)]) s1"
      by simp
    with Inl a show ?thesis
      by (intro exI [of _ evs]) (simp add: c cycle_end_rejected)
  next
    case (Inr u)
    with b a show ?thesis
      by (intro exI [of _ evs]) (simp add: c cycle_end_resolved)
  qed
qed

text \<open>
  Claim C2. In a cycle whose new signal differs from the ledger's, the events of the cycle
  come in this order: the candle requests; the close phase, which holds no opening order
  and no ledger assignment; then, only if every close order has resolved (each leg's
  confirmation is among the close events), the assignment of the flat (\<open>None\<close>) ledger;
  then the open phase for the new signal, which holds no closing order and no assignment;
  then, only if both opening orders confirmed (their confirmations are among the open
  events), the assignment of the new position. If the close rejects, the ledger stays what
  it was. If the close resolves and the open fails, the cycle ends with the ledger flat. If
  the new signal is \<open>0\<close>, the cycle ends after the close with the ledger flat.
\<close>

theorem flip_closes_then_opens:
  assumes "\<not> isCycleRunning s"
    and "currentPosition s = Some p"
    and "fetchCandleData env ''DRIFT-PERP'' = (Inr driftCandles, evd)"
    and "fetchCandleData env ''KMNO-PERP'' = (Inr kmnoCandles, evk)"
    and "SIGNAL_LAG_PERIODS < length driftCandles"
    and "SIGNAL_LAG_PERIODS < length kmnoCandles"
    and "cycle_signal driftCandles kmnoCandles = sig"
    and "sig \<noteq> signal p"
  shows "(\<forall>ev\<in>set (evd @ evk @ snd (promise_all (close_orders env p))).
            \<not> is_order_with False ev \<and> \<not> is_assignment ev)
     \<and> (fst (promise_all (close_orders env p)) = Inl e \<longrightarrow>
          currentPosition (executeTradingCycle env s) = Some p
          \<and> trace (executeTradingCycle env s)
              = trace s @ evd @ evk @ snd (promise_all (close_orders env p))
                @ [Errored (CloseFailed e), Errored (CycleFailed (cycleCount s + 1) e)])
     \<and> (fst (promise_all (close_orders env p)) = Inr txs \<longrightarrow>
          (drift p \<noteq> 0 \<longrightarrow>
             (\<exists>m tx. map_of (marketMap env) ''DRIFT'' = Some m
                \<and> Confirmed \<lparr>orderMarketIndex = marketIndex m,
                      direction = (if drift p > 0 then SHORT else LONG),
                      quantity = \<bar>drift p\<bar>, reduceOnly = True\<rparr> tx
                    \<in> set (snd (promise_all (close_orders env p)))))
          \<and> (kmno p \<noteq> 0 \<longrightarrow>
             (\<exists>m tx. map_of (marketMap env) ''KMNO'' = Some m
                \<and> Confirmed \<lparr>orderMarketIndex = marketIndex m,
                      direction = (if kmno p > 0 then SHORT else LONG),
                      quantity = \<bar>kmno p\<bar>, reduceOnly = True\<rparr> tx
                    \<in> set (snd (promise_all (close_orders env p)))))
          \<and> (sig = 0 \<longrightarrow>
             currentPosition (executeTradingCycle env s) = None
             \<and> trace (executeTradingCycle env s)
                 = trace s @ evd @ evk @ snd (promise_all (close_orders env p)) @ [Assigned None])
          \<and> (sig \<noteq> 0 \<longrightarrow>
             (\<exists>open_evs.
                (\<forall>ev\<in>set open_evs. \<not> is_order_with True ev \<and> \<not> is_assignment ev)
                \<and> (case fst (openPosition env sig
                        (s\<lparr>isCycleRunning := True, cycleCount := cycleCount s + 1,
                           currentPosition := None,
                           trace := trace s @ evd @ evk @ snd (promise_all (close_orders env p))
                                      @ [Assigned None]\<rparr>)) of
                     Inl e' \<Rightarrow>
                       currentPosition (executeTradingCycle env s) = None
                       \<and> trace (executeTradingCycle env s)
                           = trace s @ evd @ evk @ snd (promise_all (close_orders env p))
                             @ [Assigned None] @ open_evs
                             @ [Errored (OpenFailed e'), Errored (CycleFailed (cycleCount s + 1) e')]
                   | Inr u \<Rightarrow>
                       currentPosition (executeTradingCycle env s)
                           = Some \<lparr>drift = real_of_int sig * DRIFT_QUANTITY,
                                    kmno = - real_of_int sig * KMNO_QUANTITY, signal = sig\<rparr>
                       \<and> trace (executeTradingCycle env s)
                           = trace s @ evd @ evk @ snd (promise_all (close_orders env p))
                             @ [Assigned None] @ open_evs
                             @ [Assigned (Some \<lparr>drift = real_of_int sig * DRIFT_QUANTITY,
                                    kmno = - real_of_int sig * KMNO_QUANTITY, signal = sig\<rparr>)]
                       \<and> (\<exists>m tx. map_of (marketMap env) ''DRIFT'' = Some m
                             \<and> Confirmed \<lparr>orderMarketIndex = marketIndex m,
                                   direction = (if sig > 0 then LONG else SHORT),
                                   quantity = DRIFT_QUANTITY, reduceOnly = False\<rparr> tx \<in> set open_evs)
                       \<and> (\<exists>m tx. map_of (marketMap env) ''KMNO'' = Some m
                             \<and> Confirmed \<lparr>orderMarketIndex = marketIndex m,
                                   direction = (if sig > 0 then SHORT else LONG),
                                   quantity = KMNO_QUANTITY, reduceOnly = False\<rparr> tx \<in> set open_evs)))))"
proof (intro conjI impI)
  show "\<forall>ev\<in>set (evd @ evk @ snd (promise_all (close_orders env p))).
            \<not> is_order_with False ev \<and> \<not> is_assignment ev"
    using fetchCandleData_events [of _ env "''DRIFT-PERP''" False]
      fetchCandleData_events [of _ env "''KMNO-PERP''" False]
      close_orders_events [of _ env p] assms(3,4)
    by auto
next
  assume r: "fst (promise_all (close_orders env p)) = Inl e"
  have n: "cycle_signal driftCandles kmnoCandles \<noteq> signal p" using assms(7,8) by simp
  note c = cycle_close_rejected [OF assms(1,2,3,4,5,6) n r]
  show "currentPosition (executeTradingCycle env s) = Some p"
    unfolding c using assms(2) by simp
  show "trace (executeTradingCycle env s)
              = trace s @ evd @ evk @ snd (promise_all (close_orders env p))
                @ [Errored (CloseFailed e), Errored (CycleFailed (cycleCount s + 1) e)]"
    unfolding c by simp
next
  assume r: "fst (promise_all (close_orders env p)) = Inr txs"
  have n: "cycle_signal driftCandles kmnoCandles \<noteq> signal p" using assms(7,8) by simp
  note c = cycle_close_resolved [OF assms(1,2,3,4,5,6) n r, unfolded assms(7)]
  let ?s1 = "s\<lparr>isCycleRunning := True, cycleCount := cycleCount s + 1, currentPosition := None,
               trace := trace s @ evd @ evk @ snd (promise_all (close_orders env p)) @ [Assigned None]\<rparr>"
  {
    assume "drift p \<noteq> 0"
    then show "\<exists>m tx. map_of (marketMap env) ''DRIFT'' = Some m
                \<and> Confirmed \<lparr>orderMarketIndex = marketIndex m,
                      direction = (if drift p > 0 then SHORT else LONG),
                      quantity = \<bar>drift p\<bar>, reduceOnly = True\<rparr> tx
                    \<in> set (snd (promise_all (close_orders env p)))"
      using close_orders_confirmed [OF r] by blast
  }
  {
    assume "kmno p \<noteq> 0"
    then show "\<exists>m tx. map_of (marketMap env) ''KMNO'' = Some m
                \<and> Confirmed \<lparr>orderMarketIndex = marketIndex m,
                      direction = (if kmno p > 0 then SHORT else LONG),
                      quantity = \<bar>kmno p\<bar>, reduceOnly = True\<rparr> tx
                    \<in> set (snd (promise_all (close_orders env p)))"
      using close_orders_confirmed [OF r] by blast
  }
  {
    assume z: "sig = 0"
    show "currentPosition (executeTradingCycle env s) = None"
      unfolding c by (simp add: z openPosition_flat_signal cycle_end_resolved)
    show "trace (executeTradingCycle env s)
                 = trace s @ evd @ evk @ snd (promise_all (close_orders env p)) @ [Assigned None]"
      unfolding c by (simp add: z openPosition_flat_signal cycle_end_resolved)
  }
  {
    assume nz: "sig \<noteq> 0"
    have run: "isCycleRunning ?s1" by simp
    from cycle_end_open [OF nz run, of env, folded c]
    show "\<exists>open_evs.
                (\<forall>ev\<in>set open_evs. \<not> is_order_with True ev \<and> \<not> is_assignment ev)
                \<and> (case fst (openPosition env sig ?s1) of
                     Inl e' \<Rightarrow>
                       currentPosition (executeTradingCycle env s) = None
                       \<and> trace (executeTradingCycle env s)
                           = trace s @ evd @ evk @ snd (promise_all (close_orders env p))
                             @ [Assigned None] @ open_evs
                             @ [Errored (OpenFailed e'), Errored (CycleFailed (cycleCount s + 1) e')]
                   | Inr u \<Rightarrow>
                       currentPosition (executeTradingCycle env s)
                           = Some \<lparr>drift = real_of_int sig * DRIFT_QUANTITY,
                                    kmno = - real_of_int sig * KMNO_QUANTITY, signal = sig\<rparr>
                       \<and> trace (executeTradingCycle env s)
                           = trace s @ evd @ evk @ snd (promise_all (close_orders env p))
                             @ [Assigned None] @ open_evs
                             @ [Assigned (Some \<lparr>drift = real_of_int sig * DRIFT_QUANTITY,
                                    kmno = - real_of_int sig * KMNO_QUANTITY, signal = sig\<rparr>)]
                       \<and> (\<exists>m tx. map_of (marketMap env) ''DRIFT'' = Some m
                             \<and> Confirmed \<lparr>orderMarketIndex = marketIndex m,
                                   direction = (if sig > 0 then LONG else SHORT),
                                   quantity = DRIFT_QUANTITY, reduceOnly = False\<rparr> tx \<in> set open_evs)
                       \<and> (\<exists>m tx. map_of (marketMap env) ''KMNO'' = Some m
                             \<and> Confirmed \<lparr>orderMarketIndex = marketIndex m,
                                   direction = (if sig > 0 then SHORT else LONG),
                                   quantity = KMNO_QUANTITY, reduceOnly = False\<rparr> tx \<in> set open_evs))"
      by (simp cong: sum.case_cong)
  }
qed

lemma promise_all_pair_fst:
  "fst (promise_all [a, b]) =
     (case fst a of
        Inl e \<Rightarrow> Inl e
      | Inr v \<Rightarrow> (case fst b of Inl e \<Rightarrow> Inl e | Inr v' \<Rightarrow> Inr [v, v']))"
  by (cases a; cases b) (simp split: sum.splits)

lemma openPosition_fst:
  "sig \<noteq> 0 \<Longrightarrow>
   fst (openPosition env sig s) =
     (if js_gt (estimatedSlippage (fst (checkLiquidity env ''DRIFT-PERP''
                   (if sig > 0 then asks else bids) DRIFT_QUANTITY))) (MAX_SLIPPAGE_BPS / 10000)
      then Inl (Error ''DRIFT slippage too high'')
      else if js_gt (estimatedSlippage (fst (checkLiquidity env ''KMNO-PERP''
                   (if sig > 0 then bids else asks) KMNO_QUANTITY))) (MAX_SLIPPAGE_BPS / 10000)
      then Inl (Error ''KMNO slippage too high'')
      else (case fst (promise_all
                  [placeOrder env ''DRIFT'' (if sig > 0 then LONG else SHORT) DRIFT_QUANTITY False,
                   placeOrder env ''KMNO'' (if sig > 0 then SHORT else LONG) KMNO_QUANTITY False]) of
              Inl e \<Rightarrow> Inl e
            | Inr txs \<Rightarrow> Inr ()))"
  by (cases "promise_all
                  [placeOrder env ''DRIFT'' (if sig > 0 then LONG else SHORT) DRIFT_QUANTITY False,
                   placeOrder env ''KMNO'' (if sig > 0 then SHORT else LONG) KMNO_QUANTITY False]")
     (auto simp add: openPosition_def Let_def split: sum.splits)

lemma scenario_placeOrder_accepted:
  assumes "\<And>k. venue \<lparr>orderMarketIndex = 30, direction = dir, quantity = qty, reduceOnly = ro\<rparr> k = Inr ''tx''"
  shows "fst (placeOrder (scenario_env positions cnd book venue) ''DRIFT'' dir qty ro) = Inr (Some ''tx'')"
  using placeOrder_accepted [of "scenario_env positions cnd book venue" "''DRIFT''"
      "\<lparr>marketIndex = 30, baseAssetSymbol = ''DRIFT''\<rparr>" dir qty ro "''tx''"] assms
  by (simp add: scenario_market_lookup)

lemma scenario_placeOrder_accepted_kmno:
  assumes "\<And>k. venue \<lparr>orderMarketIndex = 28, direction = dir, quantity = qty, reduceOnly = ro\<rparr> k = Inr ''tx''"
  shows "fst (placeOrder (scenario_env positions cnd book venue) ''KMNO'' dir qty ro) = Inr (Some ''tx'')"
  using placeOrder_accepted [of "scenario_env positions cnd book venue" "''KMNO''"
      "\<lparr>marketIndex = 28, baseAssetSymbol = ''KMNO''\<rparr>" dir qty ro "''tx''"] assms
  by (simp add: scenario_market_lookup)

lemma scenario_placeOrder_rejected:
  assumes "\<And>k. venue \<lparr>orderMarketIndex = 30, direction = dir, quantity = qty, reduceOnly = ro\<rparr> k = Inl e"
  shows "fst (placeOrder (scenario_env positions cnd book venue) ''DRIFT'' dir qty ro) = Inl e"
  using placeOrder_rejected_thrice [of "scenario_env positions cnd book venue" "''DRIFT''"
      "\<lparr>marketIndex = 30, baseAssetSymbol = ''DRIFT''\<rparr>" dir qty ro e] assms
  by (simp add: scenario_market_lookup)

lemma deep_book_slippage:
  "\<not> js_gt (estimatedSlippage (fst (checkLiquidity (scenario_env positions cnd deep_book venue)
        name sd DRIFT_QUANTITY))) (MAX_SLIPPAGE_BPS / 10000)"
  "\<not> js_gt (estimatedSlippage (fst (checkLiquidity (scenario_env positions cnd deep_book venue)
        name sd KMNO_QUANTITY))) (MAX_SLIPPAGE_BPS / 10000)"
  by (simp_all add: deep_book_liquidity DRIFT_QUANTITY_def KMNO_QUANTITY_def js_gt_def MAX_SLIPPAGE_BPS_def)

lemma open_short_accepted_fst:
  "fst (openPosition (scenario_env positions cnd deep_book venue_accepts) (- 1) s) = Inr ()"
  by (simp add: openPosition_fst deep_book_slippage promise_all_pair_fst
      scenario_placeOrder_accepted scenario_placeOrder_accepted_kmno venue_accepts_def)

lemma open_short_rejected_fst:
  "fst (openPosition (scenario_env positions cnd deep_book venue_rejects_open) (- 1) s)
     = Inl (Error ''timeout'')"
  by (simp add: openPosition_fst deep_book_slippage promise_all_pair_fst
      scenario_placeOrder_rejected venue_rejects_open_def)

lemma close_long_accepted_fst:
  assumes "\<And>ps k. reduceOnly ps \<Longrightarrow> venue ps k = Inr ''tx''"
  shows "fst (promise_all (close_orders (scenario_env positions cnd book venue)
            \<lparr>drift = 10, kmno = - 100, signal = 1\<rparr>)) = Inr [Some ''tx'', Some ''tx'']"
  by (simp add: close_orders_def promise_all_pair_fst assms
      scenario_placeOrder_accepted scenario_placeOrder_accepted_kmno)

theorem flip_closes_then_opens_witness:
  "currentPosition (executeTradingCycle
       (scenario_env (Inr []) (steady_candles 20 1) deep_book venue_accepts) long_bot)
     = Some \<lparr>drift = - 10, kmno = 100, signal = - 1\<rparr>
   \<and> currentPosition (executeTradingCycle
       (scenario_env (Inr []) (steady_candles 20 1) deep_book venue_rejects_open) long_bot) = None
   \<and> currentPosition (executeTradingCycle
       (scenario_env (Inr []) (steady_candles 20 1) deep_book venue_rejects_kmno_close) long_bot)
     = Some \<lparr>drift = 10, kmno = - 100, signal = 1\<rparr>
   \<and> currentPosition (executeTradingCycle
       (scenario_env (Inr []) (steady_candles 10 1) deep_book venue_accepts) long_bot) = None"
proof (intro conjI)
  let ?p = "\<lparr>drift = 10, kmno = - 100, signal = 1\<rparr> :: Position"
  have 1: "\<not> isCycleRunning long_bot" by (simp add: long_bot_def)
  have 2: "currentPosition long_bot = Some ?p" by (simp add: long_bot_def)
  have f: "\<And>venue a. fetchCandleData (scenario_env (Inr []) (steady_candles a 1) deep_book venue) ''DRIFT-PERP''
      = (Inr (bars [a, a, a]), [])"
    and g: "\<And>venue a. fetchCandleData (scenario_env (Inr []) (steady_candles a 1) deep_book venue) ''KMNO-PERP''
      = (Inr (bars [1, 1, 1]), [])"
    by (simp_all add: fetch_steady_candles)
  have l: "\<And>a. SIGNAL_LAG_PERIODS < length (bars [a, a, a])"
    by (simp add: SIGNAL_LAG_PERIODS_def bars_def)
  have short: "cycle_signal (bars [20, 20, 20]) (bars [1, 1, 1]) = - 1"
    and flat: "cycle_signal (bars [10, 10, 10]) (bars [1, 1, 1]) = 0"
    by (simp_all add: cycle_signal_def SIGNAL_LAG_PERIODS_def bars_def spread_of_def signal_of_def
        PRICE_RATIO_def)
  have n1: "(- 1 :: int) \<noteq> signal ?p" and n0: "(0 :: int) \<noteq> signal ?p" by simp_all
  have nz: "(- 1 :: int) \<noteq> 0" by simp
  {
    let ?env = "scenario_env (Inr []) (steady_candles 20 1) deep_book venue_accepts"
    have res: "fst (promise_all (close_orders ?env ?p)) = Inr [Some ''tx'', Some ''tx'']"
      by (rule close_long_accepted_fst) (simp add: venue_accepts_def)
    from flip_closes_then_opens [OF 1 2 f g l l short n1, THEN conjunct2, THEN conjunct2, THEN mp,
        OF res, THEN conjunct2, THEN conjunct2, THEN conjunct2, THEN mp, OF nz]
    show "currentPosition (executeTradingCycle ?env long_bot)
        = Some \<lparr>drift = - 10, kmno = 100, signal = - 1\<rparr>"
      by (auto simp add: open_short_accepted_fst DRIFT_QUANTITY_def KMNO_QUANTITY_def)
  }
  {
    let ?env = "scenario_env (Inr []) (steady_candles 20 1) deep_book venue_rejects_open"
    have res: "fst (promise_all (close_orders ?env ?p)) = Inr [Some ''tx'', Some ''tx'']"
      by (rule close_long_accepted_fst) (simp add: venue_rejects_open_def)
    from flip_closes_then_opens [OF 1 2 f g l l short n1, THEN conjunct2, THEN conjunct2, THEN mp,
        OF res, THEN conjunct2, THEN conjunct2, THEN conjunct2, THEN mp, OF nz]
    show "currentPosition (executeTradingCycle ?env long_bot) = None"
      by (auto simp add: open_short_rejected_fst)
  }
  {
    let ?env = "scenario_env (Inr []) (steady_candles 20 1) deep_book venue_rejects_kmno_close"
    have d: "fst (placeOrder ?env ''DRIFT'' SHORT 10 True) = Inr (Some ''tx'')"
      by (rule scenario_placeOrder_accepted) (simp add: venue_rejects_kmno_close_def)
    have k: "fst (placeOrder ?env ''KMNO'' LONG 100 True) = Inl (Error ''timeout'')"
      using placeOrder_rejected_thrice [of ?env "''KMNO''" "\<lparr>marketIndex = 28, baseAssetSymbol = ''KMNO''\<rparr>"
          LONG 100 True "Error ''timeout''"]
      by (simp add: scenario_market_lookup venue_rejects_kmno_close_def)
    have rej: "fst (promise_all (close_orders ?env ?p)) = Inl (Error ''timeout'')"
      by (simp add: close_orders_def promise_all_pair_fst d k)
    from flip_closes_then_opens [OF 1 2 f g l l short n1, THEN conjunct2, THEN conjunct1, THEN mp,
        OF rej, THEN conjunct1]
    show "currentPosition (executeTradingCycle ?env long_bot) = Some ?p" .
  }
  {
    let ?env = "scenario_env (Inr []) (steady_candles 10 1) deep_book venue_accepts"
    have res: "fst (promise_all (close_orders ?env ?p)) = Inr [Some ''tx'', Some ''tx'']"
      by (rule close_long_accepted_fst) (simp add: venue_accepts_def)
    from flip_closes_then_opens [OF 1 2 f g l l flat n0, THEN conjunct2, THEN conjunct2, THEN mp,
        OF res, THEN conjunct2, THEN conjunct2, THEN conjunct1, THEN mp, OF refl, THEN conjunct1]
    show "currentPosition (executeTradingCycle ?env long_bot) = None" .
  }
qed

end
